theory Spec2Isabelle
  imports Main "HOL-Library.AList"
begin

section \<open>The signaling server\<close>

text \<open>
  The relay keeps one table, \<^verbatim>\<open>const rooms = {}\<close>, a plain JavaScript object whose own
  properties map a room id to a \<^verbatim>\<open>Set\<close> of socket ids. Own properties are kept in
  insertion order as an association list; a \<^verbatim>\<open>Set\<close> is a duplicate-free list in
  insertion order, so \<^verbatim>\<open>size\<close> is the length of the list.
\<close>

type_synonym room_id = string
type_synonym socket_id = string
type_synonym room_table = "(room_id \<times> socket_id list) list"

datatype reason = ROOM_ALREADY_EXISTS | ROOM_NOT_FOUND | ROOM_FULL

text \<open>The value handed to the acknowledgement callback \<^verbatim>\<open>cb\<close>: \<^verbatim>\<open>{ok: true}\<close> or
  \<^verbatim>\<open>{ok: false, reason}\<close>.\<close>

datatype reply = Ok | Failed reason

text \<open>Messages the relay emits: \<^verbatim>\<open>peer-joined {socketId}\<close>, \<^verbatim>\<open>peer-left {socketId}\<close> and
  \<^verbatim>\<open>signal {from, type, payload}\<close>.\<close>

datatype message =
    PeerJoined socket_id
  | PeerLeft socket_id
  | Signal (sig_from: socket_id) (sig_type: string) (sig_payload: string)

text \<open>One \<^verbatim>\<open>socket.to(roomId).emit(...)\<close>: the sockets it reaches and the message.\<close>

type_synonym emission = "socket_id set \<times> message"

datatype js_error = TypeError

text \<open>
  The state of the server process: the table \<^verbatim>\<open>rooms\<close>, the transport's own room
  membership (\<^verbatim>\<open>socket.join\<close>, \<^verbatim>\<open>socket.leave\<close>, \<^verbatim>\<open>socket.to\<close> work on it, not on
  \<^verbatim>\<open>rooms\<close>), and the sockets that are connected.
\<close>

record server =
  rooms :: room_table
  adapter :: "room_id \<Rightarrow> socket_id set"
  connected :: "socket_id set"

definition init_server :: server where
  "init_server = \<lparr>rooms = [], adapter = (\<lambda>_. {}), connected = {}\<rparr>"

subsection \<open>Property lookup on the table\<close>

text \<open>
  \<^verbatim>\<open>rooms[roomId]\<close> reads an own property first and an inherited one otherwise: the
  object literal \<^verbatim>\<open>{}\<close> inherits from \<^verbatim>\<open>Object.prototype\<close>, whose properties are all
  truthy (functions, and the prototype object itself for \<^verbatim>\<open>__proto__\<close>) and none of which
  has \<^verbatim>\<open>size\<close>, \<^verbatim>\<open>add\<close>, \<^verbatim>\<open>delete\<close> or \<^verbatim>\<open>has\<close>.
\<close>

definition object_prototype_keys :: "string list" where
  "object_prototype_keys =
     [''constructor'', ''__defineGetter__'', ''__defineSetter__'', ''hasOwnProperty'',
      ''__lookupGetter__'', ''__lookupSetter__'', ''isPrototypeOf'', ''propertyIsEnumerable'',
      ''toString'', ''valueOf'', ''__proto__'', ''toLocaleString'']"

datatype js_value = Undefined | SetObj "socket_id list" | Inherited

definition rooms_get :: "room_table \<Rightarrow> room_id \<Rightarrow> js_value" where
  "rooms_get rs k =
     (case map_of rs k of
        Some m \<Rightarrow> SetObj m
      | None \<Rightarrow> if k \<in> set object_prototype_keys then Inherited else Undefined)"

text \<open>The members of a room of the table; no members when the table has no such room.\<close>

definition members :: "server \<Rightarrow> room_id \<Rightarrow> socket_id list" where
  "members s r = (case map_of (rooms s) r of Some m \<Rightarrow> m | None \<Rightarrow> [])"

text \<open>\<^verbatim>\<open>Set.prototype.add\<close> and \<^verbatim>\<open>Set.prototype.delete\<close>.\<close>

definition set_add :: "socket_id list \<Rightarrow> socket_id \<Rightarrow> socket_id list" where
  "set_add m x = (if x \<in> set m then m else m @ [x])"

definition set_delete :: "socket_id list \<Rightarrow> socket_id \<Rightarrow> socket_id list" where
  "set_delete m x = removeAll x m"

text \<open>
  \<^verbatim>\<open>Object.keys(rooms)\<close>: the own keys that are array indices (canonical decimal numerals
  below \<open>2^32 - 1\<close>) in ascending order, then the other keys in insertion order.
\<close>

definition digit_value :: "char \<Rightarrow> nat" where
  "digit_value c = of_char c - 48"

definition digits_value :: "string \<Rightarrow> nat" where
  "digits_value k = foldl (\<lambda>n c. 10 * n + digit_value c) 0 k"

definition is_array_index :: "string \<Rightarrow> bool" where
  "is_array_index k \<longleftrightarrow>
     k \<noteq> [] \<and> list_all (\<lambda>c. c \<in> set ''0123456789'') k
     \<and> (k = ''0'' \<or> hd k \<noteq> CHR ''0'') \<and> digits_value k < 4294967295"

definition object_keys :: "room_table \<Rightarrow> room_id list" where
  "object_keys rs =
     (let ks = map fst rs
      in sort_key digits_value (filter is_array_index ks)
         @ filter (\<lambda>k. \<not> is_array_index k) ks)"

subsection \<open>The transport's rooms\<close>

text \<open>
  The transport is used through its documented contract. On connection a socket is placed
  in the room named by its own id; \<^verbatim>\<open>socket.join(r)\<close> and \<^verbatim>\<open>socket.leave(r)\<close> add it to
  and remove it from room \<open>r\<close>; a socket that disconnects has left all its rooms when its
  \<^verbatim>\<open>disconnect\<close> handler runs. \<^verbatim>\<open>socket.to(r).emit(...)\<close> is a broadcast to room \<open>r\<close>
  that excepts the room named by the sender's id (socket.io 4): it reaches the sockets of
  room \<open>r\<close> that are not in that room. While the sender's own room holds the sender alone,
  that is every socket of room \<open>r\<close> but the sender.
\<close>

definition sio_connect :: "socket_id \<Rightarrow> server \<Rightarrow> server" where
  "sio_connect sid s =
     s\<lparr>adapter := (adapter s)(sid := insert sid (adapter s sid)),
       connected := insert sid (connected s)\<rparr>"

definition sio_disconnect :: "socket_id \<Rightarrow> server \<Rightarrow> server" where
  "sio_disconnect sid s =
     s\<lparr>adapter := (\<lambda>r. adapter s r - {sid}), connected := connected s - {sid}\<rparr>"

definition socket_join :: "socket_id \<Rightarrow> room_id \<Rightarrow> server \<Rightarrow> server" where
  "socket_join sid r s = s\<lparr>adapter := (adapter s)(r := insert sid (adapter s r))\<rparr>"

definition socket_leave :: "socket_id \<Rightarrow> room_id \<Rightarrow> server \<Rightarrow> server" where
  "socket_leave sid r s = s\<lparr>adapter := (adapter s)(r := adapter s r - {sid})\<rparr>"

definition socket_to :: "server \<Rightarrow> socket_id \<Rightarrow> room_id \<Rightarrow> socket_id set" where
  "socket_to s sid r = adapter s r - adapter s sid"

subsection \<open>The handlers\<close>

text \<open>
  A handler either throws or returns the new state, the value it hands to \<^verbatim>\<open>cb\<close> (if it
  answers at all) and the emissions it made, in order.
\<close>

type_synonym outcome = "js_error + (server \<times> reply option \<times> emission list)"

definition create_room :: "socket_id \<Rightarrow> room_id \<Rightarrow> server \<Rightarrow> outcome" where
  "create_room sid roomId s =
     (if rooms_get (rooms s) roomId \<noteq> Undefined
      then Inr (s, Some (Failed ROOM_ALREADY_EXISTS), [])
      else Inr (socket_join sid roomId (s\<lparr>rooms := AList.update roomId [sid] (rooms s)\<rparr>),
                Some Ok, []))"

definition join_room :: "socket_id \<Rightarrow> room_id \<Rightarrow> server \<Rightarrow> outcome" where
  "join_room sid roomId s =
     (case rooms_get (rooms s) roomId of
        Undefined \<Rightarrow> Inr (s, Some (Failed ROOM_NOT_FOUND), [])
      | Inherited \<Rightarrow> Inl TypeError
      | SetObj m \<Rightarrow>
          if length m \<ge> 2 then Inr (s, Some (Failed ROOM_FULL), [])
          else
            let s1 = s\<lparr>rooms := AList.update roomId (set_add m sid) (rooms s)\<rparr>;
                s2 = socket_join sid roomId s1
            in Inr (s2, Some Ok, [(socket_to s2 sid roomId, PeerJoined sid)]))"

definition signal :: "socket_id \<Rightarrow> room_id \<Rightarrow> string \<Rightarrow> string \<Rightarrow> server \<Rightarrow> outcome" where
  "signal sid roomId type payload s =
     Inr (s, None, [(socket_to s sid roomId, Signal sid type payload)])"

definition leaveRoom :: "socket_id \<Rightarrow> room_id \<Rightarrow> server \<Rightarrow> outcome" where
  "leaveRoom sid roomId s =
     (case rooms_get (rooms s) roomId of
        Undefined \<Rightarrow> Inr (s, None, [])
      | Inherited \<Rightarrow> Inl TypeError
      | SetObj m \<Rightarrow>
          let m' = set_delete m sid;
              s1 = s\<lparr>rooms := AList.update roomId m' (rooms s)\<rparr>;
              s2 = socket_leave sid roomId s1;
              em = (socket_to s2 sid roomId, PeerLeft sid);
              s3 = (if length m' = 0 then s2\<lparr>rooms := AList.delete roomId (rooms s2)\<rparr> else s2)
          in Inr (s3, None, [em]))"

text \<open>The loop of the \<^verbatim>\<open>disconnect\<close> handler over the keys taken when it starts.\<close>

fun disconnect_loop ::
  "socket_id \<Rightarrow> room_id list \<Rightarrow> server \<Rightarrow> emission list \<Rightarrow> js_error + (server \<times> emission list)"
where
  "disconnect_loop sid [] s out = Inr (s, out)"
| "disconnect_loop sid (rid # rids) s out =
     (case rooms_get (rooms s) rid of
        SetObj m \<Rightarrow>
          if sid \<in> set m
          then (case leaveRoom sid rid s of
                  Inl e \<Rightarrow> Inl e
                | Inr (s', _, ems) \<Rightarrow> disconnect_loop sid rids s' (out @ ems))
          else disconnect_loop sid rids s out
      | _ \<Rightarrow> Inl TypeError)"

definition disconnect :: "socket_id \<Rightarrow> server \<Rightarrow> outcome" where
  "disconnect sid s =
     (case disconnect_loop sid (object_keys (rooms s)) (sio_disconnect sid s) [] of
        Inl e \<Rightarrow> Inl e
      | Inr (s', ems) \<Rightarrow> Inr (s', None, ems))"

datatype event =
    CreateRoom room_id
  | JoinRoom room_id
  | SignalEv room_id string string
  | LeaveRoom room_id
  | Disconnect

fun handle :: "socket_id \<Rightarrow> event \<Rightarrow> server \<Rightarrow> outcome" where
  "handle sid (CreateRoom r) s = create_room sid r s"
| "handle sid (JoinRoom r) s = join_room sid r s"
| "handle sid (SignalEv r t p) s = signal sid r t p s"
| "handle sid (LeaveRoom r) s = leaveRoom sid r s"
| "handle sid Disconnect s = disconnect sid s"

text \<open>
  The states the server can be in: it starts with an empty table, sockets connect, and
  connected sockets trigger handlers that return.
\<close>

inductive reachable :: "server \<Rightarrow> bool" where
  init: "reachable init_server"
| connect: "reachable s \<Longrightarrow> sid \<notin> connected s \<Longrightarrow> reachable (sio_connect sid s)"
| step: "reachable s \<Longrightarrow> sid \<in> connected s \<Longrightarrow> handle sid ev s = Inr (s', rep, ems)
         \<Longrightarrow> reachable s'"


text \<open>What the proofs keep track of: the table is well formed, and the transport's rooms
  agree with it up to the room each socket has under its own id.\<close>

definition table_ok :: "room_table \<Rightarrow> bool" where
  "table_ok rs \<longleftrightarrow>
     distinct (map fst rs)
     \<and> (\<forall>r m. map_of rs r = Some m \<longrightarrow> m \<noteq> [] \<and> length m \<le> 2 \<and> distinct m)"

definition adapter_ok :: "server \<Rightarrow> bool" where
  "adapter_ok s \<longleftrightarrow>
     (\<forall>r. set (members s r) \<subseteq> adapter s r
          \<and> adapter s r \<subseteq> set (members s r) \<union> ({r} \<inter> connected s))"

definition mid_ok :: "socket_id \<Rightarrow> server \<Rightarrow> bool" where
  "mid_ok sid s \<longleftrightarrow>
     (\<forall>r. set (members s r) - {sid} \<subseteq> adapter s r
          \<and> adapter s r \<subseteq> (set (members s r) - {sid}) \<union> ({r} \<inter> connected s))"

subsection \<open>A run used to exercise the handlers\<close>

text \<open>The state after a handler has run; the state is kept when the handler throws.\<close>

definition after :: "socket_id \<Rightarrow> event \<Rightarrow> server \<Rightarrow> server" where
  "after sid ev s = (case handle sid ev s of Inr (s', _, _) \<Rightarrow> s' | Inl _ \<Rightarrow> s)"

text \<open>Sockets \<open>A\<close> and \<open>B\<close> connect; \<open>A\<close> creates room \<open>r1\<close>; \<open>B\<close> joins it.\<close>

definition two_sockets :: server where
  "two_sockets = sio_connect ''B'' (sio_connect ''A'' init_server)"

definition room_A :: server where
  "room_A = after ''A'' (CreateRoom ''r1'') two_sockets"

definition room_AB :: server where
  "room_AB = after ''B'' (JoinRoom ''r1'') room_A"

text \<open>A third socket \<open>C\<close> connects and stays outside the room.\<close>

definition room_AB_C :: server where
  "room_AB_C = sio_connect ''C'' room_AB"

text \<open>From the room of \<open>A\<close> and \<open>B\<close>, \<open>B\<close> creates a room whose id is the socket id of \<open>A\<close>.\<close>

definition room_named_A :: server where
  "room_named_A = after ''B'' (CreateRoom ''A'') room_AB"

text \<open>\<open>A\<close> creates a room under its own id and leaves it; then \<open>A\<close> creates \<open>r1\<close> and \<open>B\<close>
  joins it.\<close>

definition own_room_left :: server where
  "own_room_left = after ''A'' (LeaveRoom ''A'') (after ''A'' (CreateRoom ''A'') two_sockets)"

definition room_AB_echo :: server where
  "room_AB_echo = after ''B'' (JoinRoom ''r1'') (after ''A'' (CreateRoom ''r1'') own_room_left)"

text \<open>What a handler emitted; nothing when it threw.\<close>

definition emitted :: "outcome \<Rightarrow> emission list" where
  "emitted out = (case out of Inr (_, _, ems) \<Rightarrow> ems | Inl _ \<Rightarrow> [])"

section \<open>The client\<close>

text \<open>
  The four hooks (\<^verbatim>\<open>useMediaStream\<close>, \<^verbatim>\<open>useSocketConnection\<close>, \<^verbatim>\<open>usePeerConnection\<close>,
  \<^verbatim>\<open>useRoomConnection\<close>) share one state: their refs, their React state (a \<^verbatim>\<open>set...\<close>
  call is an assignment), the browser's pending timers, and a log of what was done to the
  outside world, in order.
\<close>

datatype status = Idle | Waiting | Connecting | Connected | Disconnected

datatype pc_state = PcNew | PcConnecting | PcConnected | PcDisconnected | PcFailed | PcClosed

text \<open>
  What a timer calls. \<open>PeerReconnect\<close> (\<^verbatim>\<open>attemptReconnection\<close>), \<open>ConnectionTimeout\<close>
  (\<^verbatim>\<open>connect\<close>) and \<open>ReconnectMonitor\<close> (the interval of \<^verbatim>\<open>startMonitoringReconnection\<close>) are
  each held by a ref. \<open>JoinStart\<close>, the 100 ms timer of \<^verbatim>\<open>joinRoom\<close> that calls
  \<^verbatim>\<open>rejoinRoom()\<close>, and \<open>Restart\<close>, the 500 ms timer of \<^verbatim>\<open>handleRetry\<close> that calls
  \<^verbatim>\<open>start()\<close>, are held by no ref.
\<close>

datatype callback = PeerReconnect | ConnectionTimeout | ReconnectMonitor | JoinStart | Restart

text \<open>A pending timer: its id, its delay in milliseconds, what it will call.\<close>

type_synonym timer = "nat \<times> nat \<times> callback"

record dom_error =
  err_name :: string
  err_message :: string

datatype wire = SignalMsg room_id string string

datatype effect =
    StopTracks
  | ClosePeerConnection
  | ClearTimer callback nat
  | RemoveAllListeners
  | SocketDisconnect
  | Emit wire
  | ConsoleWarn "dom_error option"
  | ConsoleError dom_error

record client =
  localStream :: bool
  localVideo :: "bool option"
  muted :: bool
  videoOff :: bool
  mediaError :: "string option"
  socketRef :: "bool option"
  isConnected :: bool
  socketError :: "string option"
  socketReconnecting :: bool
  socketRetryCount :: nat
  socketReconnectAttempts :: nat
  reconnectIntervalRef :: "nat option"
  connectionTimeoutRef :: "nat option"
  pcRef :: bool
  remoteVideo :: "bool option"
  connectionState :: pc_state
  peerReconnectAttempts :: nat
  reconnectTimeoutRef :: "nat option"
  status :: status
  error :: "string option"
  reconnecting :: bool
  retryCount :: nat
  timers :: "timer list"
  next_timer :: nat
  effects :: "effect list"

text \<open>
  \<^verbatim>\<open>localStream\<close>: \<^verbatim>\<open>localStreamRef.current\<close> holds a stream. \<^verbatim>\<open>localVideo\<close>,
  \<^verbatim>\<open>remoteVideo\<close>: \<open>None\<close> when the video element is not mounted, else whether its
  \<^verbatim>\<open>srcObject\<close> is set. \<^verbatim>\<open>socketRef\<close>: \<open>None\<close> for \<^verbatim>\<open>null\<close>, else the socket's
  \<^verbatim>\<open>connected\<close> flag. \<^verbatim>\<open>pcRef\<close>: \<^verbatim>\<open>pcRef.current\<close> holds a peer connection.
\<close>

definition MAX_RECONNECT_ATTEMPTS :: nat where
  "MAX_RECONNECT_ATTEMPTS = 5"

definition INITIAL_RECONNECT_DELAY :: nat where
  "INITIAL_RECONNECT_DELAY = 1000"

subsection \<open>Timers\<close>

definition setTimeout :: "callback \<Rightarrow> nat \<Rightarrow> client \<Rightarrow> nat \<times> client" where
  "setTimeout c d st =
     (next_timer st,
      st\<lparr>timers := timers st @ [(next_timer st, d, c)], next_timer := Suc (next_timer st)\<rparr>)"

text \<open>\<^verbatim>\<open>clearTimeout\<close> and \<^verbatim>\<open>clearInterval\<close>; the log notes which kind of timer the ref
  it was called through holds.\<close>

definition clearTimeout :: "callback \<Rightarrow> nat \<Rightarrow> client \<Rightarrow> client" where
  "clearTimeout c t st =
     st\<lparr>timers := filter (\<lambda>(i, _, _). i \<noteq> t) (timers st),
        effects := effects st @ [ClearTimer c t]\<rparr>"

text \<open>A timer that fires leaves the pending timers.\<close>

definition expire :: "nat \<Rightarrow> client \<Rightarrow> client" where
  "expire t st = st\<lparr>timers := filter (\<lambda>(i, _, _). i \<noteq> t) (timers st)\<rparr>"

text \<open>\<^verbatim>\<open>if (ref.current)\<close> on a ref that holds \<^verbatim>\<open>null\<close> or a timer id: the id 0 is falsy.\<close>

definition is_set :: "nat option \<Rightarrow> bool" where
  "is_set r = (case r of None \<Rightarrow> False | Some t \<Rightarrow> t \<noteq> 0)"

subsection \<open>useMediaStream\<close>

definition stopStream :: "client \<Rightarrow> client" where
  "stopStream st =
     (let st1 = (if localStream st
                 then st\<lparr>effects := effects st @ [StopTracks], localStream := False\<rparr>
                 else st);
          st2 = (case localVideo st1 of None \<Rightarrow> st1 | Some _ \<Rightarrow> st1\<lparr>localVideo := Some False\<rparr>)
      in st2\<lparr>muted := False, videoOff := False, mediaError := None\<rparr>)"

text \<open>\<^verbatim>\<open>String.prototype.includes\<close>.\<close>

definition str_includes :: "string \<Rightarrow> string \<Rightarrow> bool" where
  "str_includes s sub = list_ex (\<lambda>i. take (length sub) (drop i s) = sub) [0 ..< Suc (length s)]"

definition formatErrorMessage :: "dom_error \<Rightarrow> string" where
  "formatErrorMessage err =
     (if err_name err = ''NotAllowedError'' \<or> err_name err = ''PermissionDeniedError''
      then ''Camera and microphone access was denied. Please allow access in your browser settings and try again.''
      else if err_name err = ''NotFoundError'' \<or> err_name err = ''DevicesNotFoundError''
      then ''No camera or microphone found. Please connect a camera and microphone and try again.''
      else if err_name err = ''NotReadableError'' \<or> err_name err = ''TrackStartError''
      then ''Camera or microphone is already in use by another application. Please close other applications and try again.''
      else if err_name err = ''OverconstrainedError'' \<or> err_name err = ''ConstraintNotSatisfiedError''
      then ''Camera or microphone does not support the required settings. Please try again.''
      else if err_name err = ''TypeError''
              \<and> str_includes (err_message err) ''getUserMedia''
      then ''Your browser does not support camera/microphone access. Please use a modern browser like Chrome, Firefox, or Edge.''
      else if err_message err \<noteq> []
      then ''Error: '' @ err_message err
      else ''An error occurred while starting the connection.'')"

text \<open>
  \<^verbatim>\<open>getUserMedia\<close> asks the browser twice: with the ideal constraints, and with plain ones
  if that fails. The arguments are what the browser answers: whether the first request is
  granted, and the error of the second request if it fails too.
\<close>

definition getUserMedia :: "bool \<Rightarrow> dom_error option \<Rightarrow> client \<Rightarrow> dom_error option \<times> client" where
  "getUserMedia first fallback st =
     (if \<not> first \<and> fallback \<noteq> None
      then (fallback, st\<lparr>mediaError := map_option formatErrorMessage fallback\<rparr>)
      else
        let st1 = st\<lparr>localStream := True\<rparr>;
            st2 = (case localVideo st1 of None \<Rightarrow> st1 | Some _ \<Rightarrow> st1\<lparr>localVideo := Some True\<rparr>)
        in (None, st2\<lparr>mediaError := None\<rparr>))"

subsection \<open>useSocketConnection\<close>

definition stopMonitoringReconnection :: "client \<Rightarrow> client" where
  "stopMonitoringReconnection st =
     (case reconnectIntervalRef st of
        None \<Rightarrow> st
      | Some t \<Rightarrow>
          if t = 0 then st
          else (clearTimeout ReconnectMonitor t st)\<lparr>reconnectIntervalRef := None\<rparr>)"

text \<open>A call on the client returns the error it throws, if any, and the new state.\<close>

definition sendSignal :: "room_id \<Rightarrow> string \<times> string \<Rightarrow> client \<Rightarrow> dom_error option \<times> client" where
  "sendSignal roomId data st =
     (if socketRef st = Some True
      then (None, st\<lparr>effects := effects st @ [Emit (SignalMsg roomId (fst data) (snd data))]\<rparr>)
      else (None, st))"

definition disconnectSocket :: "client \<Rightarrow> client" where
  "disconnectSocket st =
     (let st1 = (case connectionTimeoutRef st of
                   None \<Rightarrow> st
                 | Some t \<Rightarrow>
                     if t = 0 then st
                     else (clearTimeout ConnectionTimeout t st)\<lparr>connectionTimeoutRef := None\<rparr>);
          st2 = stopMonitoringReconnection st1;
          st3 = st2\<lparr>socketReconnectAttempts := 0\<rparr>;
          st4 = (case socketRef st3 of
                   None \<Rightarrow> st3
                 | Some _ \<Rightarrow>
                     st3\<lparr>effects := effects st3 @ [RemoveAllListeners, SocketDisconnect],
                         socketRef := None\<rparr>)
      in st4\<lparr>isConnected := False, socketReconnecting := False, socketRetryCount := 0,
             socketError := None\<rparr>)"


subsection \<open>The join protocol of useSocketConnection\<close>

text \<open>
  \<^verbatim>\<open>joinRoom\<close> and its inner \<^verbatim>\<open>rejoinRoom\<close> run over several callbacks: the emit, the
  server's acknowledgement, the timer before the next attempt. A run is the list of what
  they do, in order, given what the outside answers: the socket seen when attempt \<open>k\<close>
  starts, the acknowledgement of attempt \<open>k\<close> (\<open>None\<close> if none ever arrives), and the same
  for the creator's single fallback join.
\<close>

datatype join_msg =
    SocketNotConnected
  | ConnectionLost
  | RoomNotFoundWaiting nat nat
  | CouldNotJoin reason
  | CouldNotJoinCheckId reason
  | CouldNotCreate reason

datatype join_action =
    EmitCreate
  | EmitJoin
  | SetError "join_msg option"
  | Delay nat
  | CallOnSuccess
  | CallOnError join_msg
  | Throw js_error

record join_env =
  sock :: "nat \<Rightarrow> bool option"
  ack :: "nat \<Rightarrow> reply option"
  fallback_sock :: "bool option"
  fallback_ack :: "reply option"

function rejoinRoom :: "join_env \<Rightarrow> bool \<Rightarrow> nat \<Rightarrow> nat \<Rightarrow> join_action list" where
  "rejoinRoom env isCreator attempt maxAttempts =
     (if sock env attempt \<noteq> Some True
      then [SetError (Some ConnectionLost), CallOnError ConnectionLost]
      else if isCreator
      then EmitCreate #
        (case ack env attempt of
           None \<Rightarrow> []
         | Some Ok \<Rightarrow> [SetError None, CallOnSuccess]
         | Some (Failed rsn) \<Rightarrow>
             if attempt < maxAttempts \<and> rsn = ROOM_ALREADY_EXISTS
             then Delay (1000 * attempt) #
               (case fallback_sock env of
                  None \<Rightarrow> [Throw TypeError]
                | Some _ \<Rightarrow> EmitJoin #
                    (case fallback_ack env of
                       None \<Rightarrow> []
                     | Some Ok \<Rightarrow> [SetError None, CallOnSuccess]
                     | Some (Failed rsn') \<Rightarrow>
                         [SetError (Some (CouldNotJoinCheckId rsn')),
                          CallOnError (CouldNotJoinCheckId rsn')]))
             else [SetError (Some (CouldNotCreate rsn)), CallOnError (CouldNotCreate rsn)])
      else EmitJoin #
        (case ack env attempt of
           None \<Rightarrow> []
         | Some Ok \<Rightarrow> [SetError None, CallOnSuccess]
         | Some (Failed rsn) \<Rightarrow>
             if attempt < maxAttempts \<and> rsn = ROOM_NOT_FOUND
             then SetError (Some (RoomNotFoundWaiting attempt maxAttempts)) #
                  Delay (2000 * attempt) #
                  rejoinRoom env isCreator (attempt + 1) maxAttempts
             else [SetError (Some (CouldNotJoin rsn)), CallOnError (CouldNotJoin rsn)]))"
  by pat_completeness auto
termination
  by (relation "measure (\<lambda>(env, isCreator, attempt, maxAttempts). maxAttempts - attempt)") auto

declare rejoinRoom.simps [simp del]

text \<open>Three environments: the room never appears; the room is full; the creator is late
  and the room exists from the third attempt on.\<close>

definition never_created :: join_env where
  "never_created =
     \<lparr>sock = (\<lambda>_. Some True), ack = (\<lambda>_. Some (Failed ROOM_NOT_FOUND)),
      fallback_sock = None, fallback_ack = None\<rparr>"

definition room_is_full :: join_env where
  "room_is_full =
     \<lparr>sock = (\<lambda>_. Some True), ack = (\<lambda>_. Some (Failed ROOM_FULL)),
      fallback_sock = None, fallback_ack = None\<rparr>"

definition late_creator :: join_env where
  "late_creator =
     \<lparr>sock = (\<lambda>_. Some True),
      ack = (\<lambda>k. if k < 3 then Some (Failed ROOM_NOT_FOUND) else Some Ok),
      fallback_sock = None, fallback_ack = None\<rparr>"

text \<open>\<^verbatim>\<open>joinRoom\<close>: the socket it sees is the one of attempt 0; \<^verbatim>\<open>rejoinRoom()\<close> is called
  with its defaults, \<^verbatim>\<open>attempt = 1\<close> and \<^verbatim>\<open>maxAttempts = 5\<close>.\<close>

definition joinRoom :: "join_env \<Rightarrow> bool \<Rightarrow> join_action list" where
  "joinRoom env isCreator =
     (if sock env 0 \<noteq> Some True then [CallOnError SocketNotConnected]
      else Delay 100 # rejoinRoom env isCreator 1 5)"

subsection \<open>usePeerConnection\<close>

text \<open>
  What the browser's peer connection answers: each entry is the error the call fails
  with, if it fails. \<^verbatim>\<open>setRemoteDescription_rejects\<close> covers
  \<^verbatim>\<open>new RTCSessionDescription(d)\<close> too, which runs inside the same \<^verbatim>\<open>try\<close>.
\<close>

record rtc_env =
  constructor_throws :: "dom_error option"
  addTrack_throws :: "dom_error option"
  createOffer_rejects :: "dom_error option"
  createAnswer_rejects :: "dom_error option"
  setLocalDescription_rejects :: "dom_error option"
  setRemoteDescription_rejects :: "string \<Rightarrow> dom_error option"
  addIceCandidate_rejects :: "string \<Rightarrow> dom_error option"
  localDescription :: string

datatype settled = Fulfilled | Rejected dom_error

definition initPeerConnection :: "rtc_env \<Rightarrow> client \<Rightarrow> dom_error option \<times> client" where
  "initPeerConnection env st =
     (if pcRef st then (None, st)
      else case constructor_throws env of
             Some e \<Rightarrow> (Some e, st)
           | None \<Rightarrow>
               let st1 = st\<lparr>pcRef := True\<rparr>
               in if localStream st1 then (addTrack_throws env, st1) else (None, st1))"

text \<open>The first of the steps of a \<^verbatim>\<open>try\<close> block that fails.\<close>

fun first_error :: "dom_error option list \<Rightarrow> dom_error option" where
  "first_error [] = None"
| "first_error (None # rs) = first_error rs"
| "first_error (Some e # rs) = Some e"

definition createOffer :: "room_id \<Rightarrow> rtc_env \<Rightarrow> client \<Rightarrow> settled \<times> client" where
  "createOffer roomId env st =
     (let (r0, st0) = (if \<not> pcRef st
                       then initPeerConnection env (st\<lparr>effects := effects st @ [ConsoleWarn None]\<rparr>)
                       else (None, st))
      in case first_error [r0, createOffer_rejects env, setLocalDescription_rejects env] of
           Some e \<Rightarrow> (Rejected e, st0\<lparr>effects := effects st0 @ [ConsoleError e]\<rparr>)
         | None \<Rightarrow> (Fulfilled, snd (sendSignal roomId (''offer'', localDescription env) st0)))"

definition handleOffer :: "room_id \<Rightarrow> rtc_env \<Rightarrow> string \<Rightarrow> client \<Rightarrow> settled \<times> client" where
  "handleOffer roomId env offer st =
     (let (r0, st0) = (if \<not> pcRef st then initPeerConnection env st else (None, st))
      in case first_error [r0, setRemoteDescription_rejects env offer, createAnswer_rejects env,
                           setLocalDescription_rejects env] of
           Some e \<Rightarrow> (Rejected e, st0\<lparr>effects := effects st0 @ [ConsoleError e]\<rparr>)
         | None \<Rightarrow> (Fulfilled, snd (sendSignal roomId (''answer'', localDescription env) st0)))"

definition handleAnswer :: "rtc_env \<Rightarrow> string \<Rightarrow> client \<Rightarrow> settled \<times> client" where
  "handleAnswer env answer st =
     (if \<not> pcRef st then (Fulfilled, st\<lparr>effects := effects st @ [ConsoleWarn None]\<rparr>)
      else case setRemoteDescription_rejects env answer of
             Some e \<Rightarrow> (Rejected e, st\<lparr>effects := effects st @ [ConsoleError e]\<rparr>)
           | None \<Rightarrow> (Fulfilled, st))"

definition handleIceCandidate :: "rtc_env \<Rightarrow> string \<Rightarrow> client \<Rightarrow> settled \<times> client" where
  "handleIceCandidate env candidate st =
     (if \<not> pcRef st then (Fulfilled, st\<lparr>effects := effects st @ [ConsoleWarn None]\<rparr>)
      else case addIceCandidate_rejects env candidate of
             Some e \<Rightarrow> (Fulfilled, st\<lparr>effects := effects st @ [ConsoleWarn (Some e)]\<rparr>)
           | None \<Rightarrow> (Fulfilled, st))"

definition handleSignal ::
  "room_id \<Rightarrow> rtc_env \<Rightarrow> string \<times> string \<Rightarrow> client \<Rightarrow> settled \<times> client" where
  "handleSignal roomId env data st =
     (if fst data = ''offer'' then handleOffer roomId env (snd data) st
      else if fst data = ''answer'' then handleAnswer env (snd data) st
      else if fst data = ''ice-candidate'' then handleIceCandidate env (snd data) st
      else (Fulfilled, st))"

definition attemptReconnection :: "client \<Rightarrow> bool \<times> client" where
  "attemptReconnection st =
     (if peerReconnectAttempts st \<ge> MAX_RECONNECT_ATTEMPTS then (False, st)
      else
        let st1 = st\<lparr>peerReconnectAttempts := peerReconnectAttempts st + 1\<rparr>;
            delay = min (INITIAL_RECONNECT_DELAY * 2 ^ (peerReconnectAttempts st1 - 1)) 16000;
            st2 = (case reconnectTimeoutRef st1 of
                     None \<Rightarrow> st1
                   | Some t \<Rightarrow> if t = 0 then st1 else clearTimeout PeerReconnect t st1);
            (t, st3) = setTimeout PeerReconnect delay st2
        in (True, st3\<lparr>reconnectTimeoutRef := Some t\<rparr>))"

definition close :: "client \<Rightarrow> client" where
  "close st =
     (let st1 = (case reconnectTimeoutRef st of
                   None \<Rightarrow> st
                 | Some t \<Rightarrow>
                     if t = 0 then st
                     else (clearTimeout PeerReconnect t st)\<lparr>reconnectTimeoutRef := None\<rparr>);
          st2 = st1\<lparr>peerReconnectAttempts := 0\<rparr>;
          st3 = (if pcRef st2
                 then st2\<lparr>effects := effects st2 @ [ClosePeerConnection], pcRef := False\<rparr>
                 else st2);
          st4 = (case remoteVideo st3 of None \<Rightarrow> st3 | Some _ \<Rightarrow> st3\<lparr>remoteVideo := Some False\<rparr>)
      in st4\<lparr>connectionState := PcClosed\<rparr>)"

subsection \<open>useRoomConnection\<close>

definition endCall :: "client \<Rightarrow> client" where
  "endCall st =
     (disconnectSocket (close (stopStream st)))
       \<lparr>status := Disconnected, reconnecting := False, retryCount := 0, error := None\<rparr>"

text \<open>\<^verbatim>\<open>mediaError || socketError || err.message || '...'\<close>, on the values captured when
  \<^verbatim>\<open>start\<close> was created; the empty string is falsy.\<close>

definition finalError :: "string option \<Rightarrow> string option \<Rightarrow> dom_error \<Rightarrow> string" where
  "finalError m s e =
     (case m of
        Some x \<Rightarrow> if x \<noteq> [] then x else
          (case s of Some y \<Rightarrow> if y \<noteq> [] then y
                                else if err_message e \<noteq> [] then err_message e
                                else ''An error occurred while starting the connection.''
                   | None \<Rightarrow> if err_message e \<noteq> [] then err_message e
                            else ''An error occurred while starting the connection.'')
      | None \<Rightarrow>
          (case s of Some y \<Rightarrow> if y \<noteq> [] then y
                                else if err_message e \<noteq> [] then err_message e
                                else ''An error occurred while starting the connection.''
                   | None \<Rightarrow> if err_message e \<noteq> [] then err_message e
                            else ''An error occurred while starting the connection.''))"

text \<open>
  \<^verbatim>\<open>start\<close> awaits \<^verbatim>\<open>getUserMedia()\<close> and then \<^verbatim>\<open>connectSocket(...)\<close>. The socket's
  connection is the environment's: the argument \<open>connectSocket\<close> is what happens to the
  state until that promise settles, and the error it rejects with, if it does.
  \<^verbatim>\<open>start_begin\<close> is what runs before the first \<^verbatim>\<open>await\<close>; \<^verbatim>\<open>start_resume\<close> is the rest,
  which runs on the state as it is when the browser answers, with \<^verbatim>\<open>mediaError\<close> and
  \<^verbatim>\<open>socketError\<close> as captured in state \<open>st0\<close>.
\<close>

definition start_begin :: "client \<Rightarrow> client" where
  "start_begin st = st\<lparr>status := Waiting, error := None\<rparr>"

definition start_resume ::
  "bool \<Rightarrow> dom_error option \<Rightarrow> (client \<Rightarrow> dom_error option \<times> client) \<Rightarrow> client \<Rightarrow> client
   \<Rightarrow> client" where
  "start_resume first fallback connectSocket st0 st =
     (case getUserMedia first fallback st of
        (Some e, st2) \<Rightarrow>
          st2\<lparr>error := Some (finalError (mediaError st0) (socketError st0) e),
              status := Disconnected\<rparr>
      | (None, st2) \<Rightarrow>
          (case connectSocket st2 of
             (Some e, st3) \<Rightarrow>
               st3\<lparr>error := Some (finalError (mediaError st0) (socketError st0) e),
                   status := Disconnected\<rparr>
           | (None, st3) \<Rightarrow> st3))"

definition start ::
  "bool \<Rightarrow> dom_error option \<Rightarrow> (client \<Rightarrow> dom_error option \<times> client) \<Rightarrow> client \<Rightarrow> client" where
  "start first fallback connectSocket st =
     start_resume first fallback connectSocket st (start_begin st)"

text \<open>\<^verbatim>\<open>handleRetry\<close>: the four resets, \<^verbatim>\<open>endCall()\<close>, and a timer of 500 ms for \<^verbatim>\<open>start()\<close>.\<close>

definition handleRetry :: "client \<Rightarrow> client" where
  "handleRetry st =
     snd (setTimeout Restart 500
            (endCall (st\<lparr>error := None, status := Waiting, reconnecting := False,
                         retryCount := 0\<rparr>)))"

text \<open>
  A connection that succeeds. \<^verbatim>\<open>connect\<close> creates the socket and sets the timeout of
  10 s. When the socket connects, its \<^verbatim>\<open>connect\<close> handler clears the timeout, resets the
  socket hook and calls \<^verbatim>\<open>onConnect\<close>, here \<^verbatim>\<open>handleSocketConnect\<close>, whose \<^verbatim>\<open>joinRoom\<close> sets
  the timer of 100 ms for \<^verbatim>\<open>rejoinRoom()\<close> or, without a connected socket, reports the
  error; then the promise resolves. No handler runs once the socket is gone.
\<close>

definition connectSocket_begin :: "client \<Rightarrow> client" where
  "connectSocket_begin st =
     (let st1 = st\<lparr>socketRef := Some False\<rparr>;
          (t, st2) = setTimeout ConnectionTimeout 10000 st1
      in st2\<lparr>connectionTimeoutRef := Some t\<rparr>)"

definition handleSocketConnect :: "client \<Rightarrow> client" where
  "handleSocketConnect st =
     (if socketRef st \<noteq> Some True
      then st\<lparr>error := Some ''Socket not connected'', status := Disconnected\<rparr>
      else snd (setTimeout JoinStart 100 st))"

definition on_connect :: "client \<Rightarrow> client" where
  "on_connect st =
     (case socketRef st of
        None \<Rightarrow> st
      | Some _ \<Rightarrow>
          let st0 = st\<lparr>socketRef := Some True\<rparr>;
              st1 = (case connectionTimeoutRef st0 of
                       None \<Rightarrow> st0
                     | Some t \<Rightarrow>
                         if t = 0 then st0
                         else (clearTimeout ConnectionTimeout t st0)\<lparr>connectionTimeoutRef := None\<rparr>);
              st2 = st1\<lparr>socketRetryCount := 0, socketReconnecting := False, socketError := None,
                        socketReconnectAttempts := 0\<rparr>;
              st3 = stopMonitoringReconnection st2
          in handleSocketConnect (st3\<lparr>isConnected := True\<rparr>))"

definition connectSocket_connected :: "client \<Rightarrow> dom_error option \<times> client" where
  "connectSocket_connected st = (None, on_connect (connectSocket_begin st))"

definition handlePeerLeft :: "client \<Rightarrow> client" where
  "handlePeerLeft st =
     (let st1 = st\<lparr>status := Disconnected\<rparr>
      in case remoteVideo st1 of None \<Rightarrow> st1 | Some _ \<Rightarrow> st1\<lparr>remoteVideo := Some False\<rparr>)"

text \<open>The state of a room page before \<^verbatim>\<open>start()\<close>: nothing acquired, status \<^verbatim>\<open>idle\<close>.\<close>

definition init_client :: client where
  "init_client =
     \<lparr>localStream = False, localVideo = Some False, muted = False, videoOff = False,
      mediaError = None, socketRef = None, isConnected = False, socketError = None,
      socketReconnecting = False, socketRetryCount = 0, socketReconnectAttempts = 0,
      reconnectIntervalRef = None, connectionTimeoutRef = None, pcRef = False,
      remoteVideo = Some False, connectionState = PcNew, peerReconnectAttempts = 0,
      reconnectTimeoutRef = None, status = Idle, error = None, reconnecting = False,
      retryCount = 0, timers = [], next_timer = 1, effects = []\<rparr>"

text \<open>A client in a call: stream held, socket connected, peer connection up.\<close>

definition in_call :: client where
  "in_call =
     init_client\<lparr>localStream := True, localVideo := Some True, socketRef := Some True,
                 isConnected := True, pcRef := True, remoteVideo := Some True,
                 connectionState := PcConnected, status := Connected\<rparr>"

text \<open>The browser refuses camera and microphone.\<close>

definition denied :: dom_error where
  "denied = \<lparr>err_name = ''NotAllowedError'', err_message = ''Permission denied''\<rparr>"

text \<open>What \<^verbatim>\<open>clearTimeout\<close> through a ref logs: nothing when the ref is \<^verbatim>\<open>null\<close> or 0.\<close>

definition cleared :: "callback \<Rightarrow> nat option \<Rightarrow> effect list" where
  "cleared c r = (case r of None \<Rightarrow> [] | Some t \<Rightarrow> if t = 0 then [] else [ClearTimer c t])"

text \<open>What \<^verbatim>\<open>clearTimeout\<close> through a ref removes from the pending timers.\<close>

definition cancel :: "nat option \<Rightarrow> timer list \<Rightarrow> timer list" where
  "cancel r ts =
     (case r of None \<Rightarrow> ts | Some t \<Rightarrow> if t = 0 then ts else filter (\<lambda>(i, _, _). i \<noteq> t) ts)"

text \<open>A peer connection that refuses every candidate and every remote description.\<close>

definition refusing :: rtc_env where
  "refusing =
     \<lparr>constructor_throws = None, addTrack_throws = None, createOffer_rejects = None,
      createAnswer_rejects = None, setLocalDescription_rejects = None,
      setRemoteDescription_rejects =
        (\<lambda>_. Some \<lparr>err_name = ''InvalidStateError'', err_message = ''wrong state''\<rparr>),
      addIceCandidate_rejects =
        (\<lambda>_. Some \<lparr>err_name = ''OperationError'', err_message = ''late candidate''\<rparr>),
      localDescription = ''sdp''\<rparr>"

text \<open>
  Three runs around \<^verbatim>\<open>endCall\<close>. In a call the user asks for a retry and the call is ended
  before the 500 ms are over; then that timer fires and \<^verbatim>\<open>start()\<close> runs, the browser
  grants the media and the socket connects. On a fresh page \<^verbatim>\<open>start()\<close> is waiting for
  the browser when the call is ended, and then goes on.
\<close>

definition ended_after_retry :: client where
  "ended_after_retry = endCall (handleRetry in_call)"

definition restarted :: client where
  "restarted = start True None connectSocket_connected (expire 1 ended_after_retry)"

definition resumed_after_end :: client where
  "resumed_after_end =
     start_resume True None connectSocket_connected init_client (endCall (start_begin init_client))"

section \<open>Properties of the signaling server\<close>

subsection \<open>The table and the transport's rooms stay consistent\<close>

text \<open>Every handler keeps the table well formed and the transport's rooms in step with
  it; so does the loop of the \<^verbatim>\<open>disconnect\<close> handler, which runs after the transport has
  already dropped the socket from its rooms.\<close>

lemma rooms_get_SetObj: "rooms_get rs k = SetObj m \<longleftrightarrow> map_of rs k = Some m"
  by (simp add: rooms_get_def split: option.splits)

lemma rooms_get_Undefined: "rooms_get rs k = Undefined \<Longrightarrow> map_of rs k = None"
  by (simp add: rooms_get_def split: option.splits if_splits)

lemma table_ok_update:
  "table_ok rs \<Longrightarrow> m \<noteq> [] \<Longrightarrow> length m \<le> 2 \<Longrightarrow> distinct m \<Longrightarrow> table_ok (AList.update r m rs)"
  by (simp add: table_ok_def distinct_update update_conv')

lemma table_ok_delete: "table_ok rs \<Longrightarrow> table_ok (AList.delete r rs)"
  by (simp add: table_ok_def distinct_delete delete_conv')

lemma table_ok_delete_update: "table_ok rs \<Longrightarrow> table_ok (AList.delete r (AList.update r m rs))"
  by (simp add: table_ok_def distinct_delete distinct_update delete_conv' update_conv')

lemma table_okD: "table_ok rs \<Longrightarrow> map_of rs r = Some m \<Longrightarrow> m \<noteq> [] \<and> length m \<le> 2 \<and> distinct m"
  by (simp add: table_ok_def)

lemma set_add_ok: "distinct m \<Longrightarrow> length m < 2 \<Longrightarrow>
  set_add m x \<noteq> [] \<and> length (set_add m x) \<le> 2 \<and> distinct (set_add m x)"
  by (auto simp: set_add_def)

lemma set_delete_ok: "distinct m \<Longrightarrow> length m \<le> 2 \<Longrightarrow>
  length (set_delete m x) \<le> 2 \<and> distinct (set_delete m x)"
  using length_removeAll_less_eq [of x m] by (simp add: set_delete_def distinct_removeAll del: length_removeAll_less_eq)

lemma table_ok_create:
  assumes "table_ok (rooms s)" "create_room sid r s = Inr (s', rep, ems)"
  shows "table_ok (rooms s')"
proof (cases "rooms_get (rooms s) r = Undefined")
  case True
  with assms(2) have "rooms s' = AList.update r [sid] (rooms s)"
    by (auto simp: create_room_def socket_join_def)
  with assms(1) show ?thesis by (simp add: table_ok_update)
next
  case False
  with assms show ?thesis by (auto simp: create_room_def)
qed

lemma table_ok_join:
  assumes "table_ok (rooms s)" "join_room sid r s = Inr (s', rep, ems)"
  shows "table_ok (rooms s')"
proof (cases "rooms_get (rooms s) r")
  case Undefined
  with assms show ?thesis by (auto simp: join_room_def)
next
  case Inherited
  with assms show ?thesis by (auto simp: join_room_def)
next
  case (SetObj m)
  then have m: "map_of (rooms s) r = Some m" by (simp add: rooms_get_SetObj)
  show ?thesis
  proof (cases "length m \<ge> 2")
    case True
    with SetObj assms show ?thesis by (auto simp: join_room_def)
  next
    case False
    with SetObj assms(2) have "rooms s' = AList.update r (set_add m sid) (rooms s)"
      by (auto simp: join_room_def socket_join_def Let_def)
    moreover have "set_add m sid \<noteq> [] \<and> length (set_add m sid) \<le> 2 \<and> distinct (set_add m sid)"
      using table_okD [OF assms(1) m] False by (intro set_add_ok) auto
    ultimately show ?thesis using assms(1) by (simp add: table_ok_update)
  qed
qed

lemma table_ok_leave:
  assumes "table_ok (rooms s)" "leaveRoom sid r s = Inr (s', rep, ems)"
  shows "table_ok (rooms s')"
proof (cases "rooms_get (rooms s) r")
  case Undefined
  with assms show ?thesis by (auto simp: leaveRoom_def)
next
  case Inherited
  with assms show ?thesis by (auto simp: leaveRoom_def)
next
  case (SetObj m)
  then have m: "map_of (rooms s) r = Some m" by (simp add: rooms_get_SetObj)
  show ?thesis
  proof (cases "set_delete m sid = []")
    case True
    with SetObj assms(2) have "rooms s' = AList.delete r (AList.update r (set_delete m sid) (rooms s))"
      by (auto simp: leaveRoom_def socket_leave_def Let_def)
    with assms(1) show ?thesis by (simp add: table_ok_delete_update)
  next
    case False
    with SetObj assms(2) have "rooms s' = AList.update r (set_delete m sid) (rooms s)"
      by (auto simp: leaveRoom_def socket_leave_def Let_def)
    moreover have "length (set_delete m sid) \<le> 2 \<and> distinct (set_delete m sid)"
      using table_okD [OF assms(1) m] by (intro set_delete_ok) auto
    ultimately show ?thesis using assms(1) False by (simp add: table_ok_update)
  qed
qed


lemma members_update:
  "rooms s' = AList.update r m (rooms s)
   \<Longrightarrow> members s' r' = (if r' = r then m else members s r')"
  by (simp add: members_def update_conv')

lemma members_delete_update:
  "rooms s' = AList.delete r (AList.update r m (rooms s))
   \<Longrightarrow> members s' r' = (if r' = r then [] else members s r')"
  by (simp add: members_def update_conv' delete_conv')

lemma create_room_effect:
  assumes "create_room sid r s = Inr (s', rep, ems)"
  shows "(rooms_get (rooms s) r \<noteq> Undefined \<and> s' = s \<and> rep = Some (Failed ROOM_ALREADY_EXISTS) \<and> ems = [])
       \<or> (rooms_get (rooms s) r = Undefined
          \<and> rooms s' = AList.update r [sid] (rooms s)
          \<and> adapter s' = (adapter s)(r := insert sid (adapter s r))
          \<and> connected s' = connected s \<and> rep = Some Ok \<and> ems = [])"
  using assms by (auto simp: create_room_def socket_join_def split: if_splits)

lemma join_room_effect:
  assumes "join_room sid r s = Inr (s', rep, ems)"
  shows "(rooms_get (rooms s) r = Undefined \<and> s' = s \<and> rep = Some (Failed ROOM_NOT_FOUND) \<and> ems = [])
       \<or> (\<exists>m. map_of (rooms s) r = Some m \<and> length m \<ge> 2 \<and> s' = s
              \<and> rep = Some (Failed ROOM_FULL) \<and> ems = [])
       \<or> (\<exists>m. map_of (rooms s) r = Some m \<and> length m < 2
              \<and> rooms s' = AList.update r (set_add m sid) (rooms s)
              \<and> adapter s' = (adapter s)(r := insert sid (adapter s r))
              \<and> connected s' = connected s \<and> rep = Some Ok
              \<and> ems = [(socket_to s' sid r, PeerJoined sid)])"
proof (cases "rooms_get (rooms s) r")
  case Undefined
  with assms show ?thesis by (simp add: join_room_def)
next
  case Inherited
  with assms show ?thesis by (simp add: join_room_def)
next
  case (SetObj m)
  then have m: "map_of (rooms s) r = Some m" by (simp add: rooms_get_SetObj)
  show ?thesis
  proof (cases "length m \<ge> 2")
    case True
    with SetObj assms m show ?thesis by (auto simp: join_room_def)
  next
    case False
    with SetObj assms
    have e: "s' = socket_join sid r (s\<lparr>rooms := AList.update r (set_add m sid) (rooms s)\<rparr>)"
      "rep = Some Ok" "ems = [(socket_to s' sid r, PeerJoined sid)]"
      by (auto simp: join_room_def Let_def)
    from e(1) have "rooms s' = AList.update r (set_add m sid) (rooms s)"
      "adapter s' = (adapter s)(r := insert sid (adapter s r))" "connected s' = connected s"
      by (simp_all add: socket_join_def)
    with m False e(2,3) show ?thesis by simp
  qed
qed

lemma leaveRoom_effect:
  assumes "leaveRoom sid r s = Inr (s', rep, ems)"
  shows "(rooms_get (rooms s) r = Undefined \<and> s' = s \<and> rep = None \<and> ems = [])
       \<or> (\<exists>m. map_of (rooms s) r = Some m
              \<and> rooms s' = (if set_delete m sid = []
                             then AList.delete r (AList.update r (set_delete m sid) (rooms s))
                             else AList.update r (set_delete m sid) (rooms s))
              \<and> adapter s' = (adapter s)(r := adapter s r - {sid})
              \<and> connected s' = connected s \<and> rep = None
              \<and> ems = [(socket_to s' sid r, PeerLeft sid)])"
proof (cases "rooms_get (rooms s) r")
  case Undefined
  with assms show ?thesis by (simp add: leaveRoom_def)
next
  case Inherited
  with assms show ?thesis by (simp add: leaveRoom_def)
next
  case (SetObj m)
  then have m: "map_of (rooms s) r = Some m" by (simp add: rooms_get_SetObj)
  let ?s2 = "socket_leave sid r (s\<lparr>rooms := AList.update r (set_delete m sid) (rooms s)\<rparr>)"
  from SetObj assms
  have e: "s' = (if set_delete m sid = [] then ?s2\<lparr>rooms := AList.delete r (rooms ?s2)\<rparr> else ?s2)"
    "rep = None" "ems = [(socket_to ?s2 sid r, PeerLeft sid)]"
    by (auto simp: leaveRoom_def Let_def)
  from e(1)
  have f: "rooms s' = (if set_delete m sid = []
                       then AList.delete r (AList.update r (set_delete m sid) (rooms s))
                       else AList.update r (set_delete m sid) (rooms s))"
    "adapter s' = (adapter s)(r := adapter s r - {sid})" "connected s' = connected s"
    by (simp_all add: socket_leave_def)
  have "adapter ?s2 = adapter s'" using f(2) by (simp add: socket_leave_def)
  then have "socket_to ?s2 sid r = socket_to s' sid r" by (simp add: socket_to_def)
  with m e(2,3) f show ?thesis by simp
qed

lemma leaveRoom_members:
  assumes "leaveRoom sid r s = Inr (s', rep, ems)"
  shows "members s' r' = (if r' = r then set_delete (members s r) sid else members s r')"
  using leaveRoom_effect [OF assms]
proof (elim disjE conjE exE)
  assume "rooms_get (rooms s) r = Undefined" "s' = s"
  then show ?thesis
    by (auto simp: members_def set_delete_def dest: rooms_get_Undefined)
next
  fix m
  assume m: "map_of (rooms s) r = Some m"
    and r: "rooms s' = (if set_delete m sid = []
                             then AList.delete r (AList.update r (set_delete m sid) (rooms s))
                             else AList.update r (set_delete m sid) (rooms s))"
  show ?thesis
  proof (cases "set_delete m sid = []")
    case True
    with r have "rooms s' = AList.delete r (AList.update r (set_delete m sid) (rooms s))" by simp
    from members_delete_update [OF this] True m show ?thesis by (simp add: members_def)
  next
    case False
    with r have "rooms s' = AList.update r (set_delete m sid) (rooms s)" by simp
    from members_update [OF this] m show ?thesis by (simp add: members_def)
  qed
qed



lemma members_None: "map_of (rooms s) r = None \<Longrightarrow> members s r = []"
  by (simp add: members_def)

lemma adapter_ok_init: "adapter_ok init_server"
  by (simp add: adapter_ok_def init_server_def members_def)

lemma adapter_okD:
  "adapter_ok s \<Longrightarrow> set (members s r) \<subseteq> adapter s r
     \<and> adapter s r \<subseteq> set (members s r) \<union> ({r} \<inter> connected s)"
  by (simp add: adapter_ok_def)

lemma adapter_ok_connect: "adapter_ok s \<Longrightarrow> adapter_ok (sio_connect sid s)"
  unfolding adapter_ok_def sio_connect_def members_def by auto

lemma adapter_ok_create:
  assumes "adapter_ok s" "create_room sid r s = Inr (s', rep, ems)"
  shows "adapter_ok s'"
  using create_room_effect [OF assms(2)]
proof (elim disjE conjE)
  assume "s' = s" with assms(1) show ?thesis by simp
next
  assume u: "rooms_get (rooms s) r = Undefined"
    and r: "rooms s' = AList.update r [sid] (rooms s)"
    and a: "adapter s' = (adapter s)(r := insert sid (adapter s r))"
    and c: "connected s' = connected s"
  have e: "members s r = []" using rooms_get_Undefined [OF u] by (simp add: members_def)
  have "set (members s' r') \<subseteq> adapter s' r'
        \<and> adapter s' r' \<subseteq> set (members s' r') \<union> ({r'} \<inter> connected s')" for r'
    using adapter_okD [OF assms(1), of r'] a c e members_update [OF r, of r']
    by (cases "r' = r") auto
  then show ?thesis by (simp add: adapter_ok_def)
qed

lemma adapter_ok_join:
  assumes "adapter_ok s" "join_room sid r s = Inr (s', rep, ems)"
  shows "adapter_ok s'"
  using join_room_effect [OF assms(2)]
proof (elim disjE conjE exE)
  assume "s' = s" with assms(1) show ?thesis by simp
next
  fix m assume "s' = s" with assms(1) show ?thesis by simp
next
  fix m
  assume m: "map_of (rooms s) r = Some m"
    and r: "rooms s' = AList.update r (set_add m sid) (rooms s)"
    and a: "adapter s' = (adapter s)(r := insert sid (adapter s r))"
    and c: "connected s' = connected s"
  have e: "members s r = m" using m by (simp add: members_def)
  have "set (members s' r') \<subseteq> adapter s' r'
        \<and> adapter s' r' \<subseteq> set (members s' r') \<union> ({r'} \<inter> connected s')" for r'
    using adapter_okD [OF assms(1), of r'] a c e members_update [OF r, of r']
    by (cases "r' = r") (auto simp: set_add_def)
  then show ?thesis by (simp add: adapter_ok_def)
qed

lemma mid_okD:
  "mid_ok sid s \<Longrightarrow> set (members s r) - {sid} \<subseteq> adapter s r
          \<and> adapter s r \<subseteq> (set (members s r) - {sid}) \<union> ({r} \<inter> connected s)"
  by (simp add: mid_ok_def)

lemma leaveRoom_adapter:
  assumes "leaveRoom sid r s = Inr (s', rep, ems)"
  shows "adapter s' r' =
           (if r' = r \<and> map_of (rooms s) r \<noteq> None then adapter s r - {sid} else adapter s r')"
  using leaveRoom_effect [OF assms]
  by (auto dest: rooms_get_Undefined)

lemma leaveRoom_adapter_weak:
  assumes "leaveRoom sid r s = Inr (s', rep, ems)"
  shows "adapter s' r' = adapter s r' \<or> adapter s' r' = adapter s r' - {sid}"
  using leaveRoom_adapter [OF assms, of r'] by (simp split: if_splits)

lemma leaveRoom_connected:
  assumes "leaveRoom sid r s = Inr (s', rep, ems)"
  shows "connected s' = connected s"
  using leaveRoom_effect [OF assms] by auto

lemma adapter_ok_leave:
  assumes "adapter_ok s" "leaveRoom sid r s = Inr (s', rep, ems)"
  shows "adapter_ok s'"
proof -
  have "set (members s' r') \<subseteq> adapter s' r'
        \<and> adapter s' r' \<subseteq> set (members s' r') \<union> ({r'} \<inter> connected s')" for r'
    using adapter_okD [OF assms(1), of r'] leaveRoom_members [OF assms(2), of r']
      leaveRoom_adapter [OF assms(2), of r'] leaveRoom_connected [OF assms(2)]
      members_None [of s r]
    by (cases "r' = r"; cases "map_of (rooms s) r = None") (auto simp: set_delete_def)
  then show ?thesis by (simp add: adapter_ok_def)
qed

lemma mid_ok_sio_disconnect: "adapter_ok s \<Longrightarrow> mid_ok sid (sio_disconnect sid s)"
  unfolding adapter_ok_def mid_ok_def sio_disconnect_def members_def by auto

lemma mid_ok_leave:
  assumes "mid_ok sid s" "leaveRoom sid r s = Inr (s', rep, ems)"
  shows "mid_ok sid s'"
proof -
  have "set (members s' r') - {sid} \<subseteq> adapter s' r'
        \<and> adapter s' r' \<subseteq> (set (members s' r') - {sid}) \<union> ({r'} \<inter> connected s')" for r'
    using mid_okD [OF assms(1), of r'] leaveRoom_members [OF assms(2), of r']
      leaveRoom_adapter [OF assms(2), of r'] leaveRoom_connected [OF assms(2)]
      members_None [of s r]
    by (cases "r' = r"; cases "map_of (rooms s) r = None") (auto simp: set_delete_def)
  then show ?thesis by (simp add: mid_ok_def)
qed


lemma disconnect_loop_Cons:
  assumes "disconnect_loop sid (rid # rids) s out = Inr (s', out')"
  obtains (leave) m s1 rep ems where "map_of (rooms s) rid = Some m" "sid \<in> set m"
      "leaveRoom sid rid s = Inr (s1, rep, ems)"
      "disconnect_loop sid rids s1 (out @ ems) = Inr (s', out')"
  | (skip) m where "map_of (rooms s) rid = Some m" "sid \<notin> set m"
      "disconnect_loop sid rids s out = Inr (s', out')"
proof (cases "rooms_get (rooms s) rid")
  case Undefined
  with assms show ?thesis by simp
next
  case Inherited
  with assms show ?thesis by simp
next
  case (SetObj m)
  then have m: "map_of (rooms s) rid = Some m" by (simp add: rooms_get_SetObj)
  show ?thesis
  proof (cases "sid \<in> set m")
    case False
    with SetObj assms m skip show ?thesis by simp
  next
    case True
    show ?thesis
    proof (cases "leaveRoom sid rid s")
      case (Inl e)
      with SetObj True assms show ?thesis by simp
    next
      case (Inr t)
      obtain s1 rep ems where t: "t = (s1, rep, ems)" by (cases t) auto
      with Inr SetObj True assms m leave show ?thesis by simp
    qed
  qed
qed

lemma disconnect_loop_preserves:
  assumes step: "\<And>s r s' rep ems. P s \<Longrightarrow> leaveRoom sid r s = Inr (s', rep, ems) \<Longrightarrow> P s'"
  shows "P s \<Longrightarrow> disconnect_loop sid ks s out = Inr (s', out') \<Longrightarrow> P s'"
proof (induction ks arbitrary: s out)
  case Nil
  then show ?case by simp
next
  case (Cons rid rids)
  from Cons.prems(2) show ?case
  proof (cases rule: disconnect_loop_Cons)
    case (leave m s1 rep ems)
    from step [OF Cons.prems(1) leave(3)] leave(4) show ?thesis by (rule Cons.IH)
  next
    case (skip m)
    from Cons.prems(1) skip(3) show ?thesis by (rule Cons.IH)
  qed
qed

lemma disconnect_loop_members_subset:
  "disconnect_loop sid ks s out = Inr (s', out') \<Longrightarrow> set (members s' r) \<subseteq> set (members s r)"
proof (induction ks arbitrary: s out)
  case Nil
  then show ?case by simp
next
  case (Cons rid rids)
  from Cons.prems show ?case
  proof (cases rule: disconnect_loop_Cons)
    case (leave m s1 rep ems)
    have "set (members s1 r) \<subseteq> set (members s r)"
      using leaveRoom_members [OF leave(3), of r] by (auto simp: set_delete_def)
    with Cons.IH [OF leave(4)] show ?thesis by blast
  next
    case (skip m)
    then show ?thesis using Cons.IH by blast
  qed
qed

lemma disconnect_loop_members_removed:
  "disconnect_loop sid ks s out = Inr (s', out') \<Longrightarrow> r \<in> set ks \<Longrightarrow> sid \<notin> set (members s' r)"
proof (induction ks arbitrary: s out)
  case Nil
  then show ?case by simp
next
  case (Cons rid rids)
  from Cons.prems(1) show ?case
  proof (cases rule: disconnect_loop_Cons)
    case (leave m s1 rep ems)
    show ?thesis
    proof (cases "r = rid")
      case True
      have "sid \<notin> set (members s1 rid)"
        using leaveRoom_members [OF leave(3), of rid] by (simp add: set_delete_def)
      with disconnect_loop_members_subset [OF leave(4), of rid] True show ?thesis by blast
    next
      case False
      with Cons.prems(2) have "r \<in> set rids" by simp
      with Cons.IH [OF leave(4)] show ?thesis by simp
    qed
  next
    case (skip m)
    show ?thesis
    proof (cases "r = rid")
      case True
      have "sid \<notin> set (members s rid)" using skip(1,2) by (simp add: members_def)
      with disconnect_loop_members_subset [OF skip(3), of rid] True show ?thesis by blast
    next
      case False
      with Cons.prems(2) have "r \<in> set rids" by simp
      with Cons.IH [OF skip(3)] show ?thesis by simp
    qed
  qed
qed

lemma set_object_keys: "set (object_keys rs) = fst ` set rs"
  by (auto simp: object_keys_def Let_def)

lemma table_ok_disconnect:
  assumes "table_ok (rooms s)" "disconnect sid s = Inr (s', rep, ems)"
  shows "table_ok (rooms s')"
proof -
  from assms(2) obtain out where
    l: "disconnect_loop sid (object_keys (rooms s)) (sio_disconnect sid s) [] = Inr (s', out)"
    by (auto simp: disconnect_def split: sum.splits)
  have "table_ok (rooms (sio_disconnect sid s))" using assms(1) by (simp add: sio_disconnect_def)
  then show ?thesis
    using l by (rule disconnect_loop_preserves [where P = "\<lambda>s. table_ok (rooms s)", rotated])
      (rule table_ok_leave)
qed

lemma adapter_ok_disconnect:
  assumes "adapter_ok s" "disconnect sid s = Inr (s', rep, ems)"
  shows "adapter_ok s'"
proof -
  let ?s0 = "sio_disconnect sid s"
  from assms(2) obtain out where
    l: "disconnect_loop sid (object_keys (rooms s)) ?s0 [] = Inr (s', out)"
    by (auto simp: disconnect_def split: sum.splits)
  have "mid_ok sid ?s0" using assms(1) by (rule mid_ok_sio_disconnect)
  then have mid: "mid_ok sid s'"
    using l by (rule disconnect_loop_preserves [where P = "mid_ok sid", rotated])
      (rule mid_ok_leave)
  have gone: "sid \<notin> set (members s' r)" for r
  proof (cases "r \<in> fst ` set (rooms s)")
    case True
    then have "r \<in> set (object_keys (rooms s))" by (simp add: set_object_keys)
    with l show ?thesis by (rule disconnect_loop_members_removed)
  next
    case False
    then have "map_of (rooms s) r = None" by (simp add: map_of_eq_None_iff)
    then have "members ?s0 r = []" by (simp add: members_def sio_disconnect_def)
    with disconnect_loop_members_subset [OF l, of r] show ?thesis by simp
  qed
  have "set (members s' r) \<subseteq> adapter s' r
        \<and> adapter s' r \<subseteq> set (members s' r) \<union> ({r} \<inter> connected s')" for r
    using mid_okD [OF mid, of r] gone [of r] by auto
  then show ?thesis by (simp add: adapter_ok_def)
qed

lemma reachable_invariant: "reachable s \<Longrightarrow> table_ok (rooms s) \<and> adapter_ok s"
proof (induction rule: reachable.induct)
  case init
  show ?case by (simp add: adapter_ok_init) (simp add: table_ok_def init_server_def)
next
  case (connect s sid)
  then show ?case by (simp add: adapter_ok_connect) (simp add: sio_connect_def)
next
  case (step s sid ev s' rep ems)
  then show ?case
  proof (cases ev)
    case (CreateRoom r)
    with step show ?thesis by (auto intro: table_ok_create adapter_ok_create)
  next
    case (JoinRoom r)
    with step show ?thesis by (auto intro: table_ok_join adapter_ok_join)
  next
    case (SignalEv r t p)
    with step show ?thesis by (auto simp: signal_def)
  next
    case (LeaveRoom r)
    with step show ?thesis by (auto intro: table_ok_leave adapter_ok_leave)
  next
    case Disconnect
    with step show ?thesis by (auto intro: table_ok_disconnect adapter_ok_disconnect)
  qed
qed


text \<open>In a reachable state the \<^verbatim>\<open>disconnect\<close> handler never throws: every key it visits is
  still in the table when its turn comes.\<close>

lemma leaveRoom_returns:
  "map_of (rooms s) r = Some m \<Longrightarrow> \<exists>s' ems. leaveRoom sid r s = Inr (s', None, ems)"
  by (simp add: leaveRoom_def rooms_get_def Let_def)

lemma leaveRoom_other_rooms:
  assumes "leaveRoom sid r s = Inr (s', rep, ems)" "r' \<noteq> r"
  shows "map_of (rooms s') r' = map_of (rooms s) r'"
  using leaveRoom_effect [OF assms(1)] assms(2)
  by (auto simp: delete_conv' update_conv' split: if_splits)

lemma disconnect_loop_returns:
  "distinct ks \<Longrightarrow> \<forall>k \<in> set ks. map_of (rooms s) k \<noteq> None
   \<Longrightarrow> \<exists>s' out'. disconnect_loop sid ks s out = Inr (s', out')"
proof (induction ks arbitrary: s out)
  case Nil
  then show ?case by simp
next
  case (Cons rid rids)
  from Cons.prems(2) obtain m where m: "map_of (rooms s) rid = Some m" by auto
  then have g: "rooms_get (rooms s) rid = SetObj m" by (simp add: rooms_get_SetObj)
  show ?case
  proof (cases "sid \<in> set m")
    case False
    from Cons.prems have "\<exists>s' out'. disconnect_loop sid rids s out = Inr (s', out')"
      by (intro Cons.IH) auto
    with g False show ?thesis by simp
  next
    case True
    from leaveRoom_returns [OF m] obtain s1 ems where l: "leaveRoom sid rid s = Inr (s1, None, ems)"
      by blast
    have "\<forall>k \<in> set rids. map_of (rooms s1) k \<noteq> None"
    proof
      fix k assume k: "k \<in> set rids"
      with Cons.prems(1) have "k \<noteq> rid" by auto
      from leaveRoom_other_rooms [OF l this] Cons.prems(2) k show "map_of (rooms s1) k \<noteq> None"
        by simp
    qed
    with Cons.prems(1) have "\<exists>s' out'. disconnect_loop sid rids s1 (out @ ems) = Inr (s', out')"
      by (intro Cons.IH) auto
    with g True l show ?thesis by simp
  qed
qed

lemma distinct_object_keys: "distinct (map fst rs) \<Longrightarrow> distinct (object_keys rs)"
  by (auto simp: object_keys_def Let_def)

lemma disconnect_returns:
  assumes "reachable s"
  shows "\<exists>s' ems. handle sid Disconnect s = Inr (s', None, ems)"
proof -
  from reachable_invariant [OF assms] have d: "distinct (map fst (rooms s))"
    by (simp add: table_ok_def)
  have "\<forall>k \<in> set (object_keys (rooms s)). map_of (rooms (sio_disconnect sid s)) k \<noteq> None"
    by (simp add: set_object_keys sio_disconnect_def map_of_eq_None_iff)
  with distinct_object_keys [OF d]
  obtain s' out' where
    "disconnect_loop sid (object_keys (rooms s)) (sio_disconnect sid s) [] = Inr (s', out')"
    using disconnect_loop_returns by blast
  then show ?thesis by (simp add: disconnect_def)
qed

subsection \<open>Evaluating the run\<close>

lemmas server_defs =
  after_def create_room_def join_room_def signal_def leaveRoom_def disconnect_def
  rooms_get_def object_prototype_keys_def members_def set_add_def set_delete_def
  sio_connect_def sio_disconnect_def socket_join_def socket_leave_def socket_to_def
  init_server_def object_keys_def is_array_index_def Let_def

lemma reachable_after: "reachable s \<Longrightarrow> sid \<in> connected s \<Longrightarrow> reachable (after sid ev s)"
  by (cases "handle sid ev s") (auto simp: after_def intro: reachable.step)

lemma two_sockets_eval:
  "rooms two_sockets = []" "connected two_sockets = {''A'', ''B''}"
  "adapter two_sockets r = (if r = ''B'' then {''B''} else if r = ''A'' then {''A''} else {})"
  by (auto simp: two_sockets_def server_defs)

lemma reachable_two_sockets: "reachable two_sockets"
  unfolding two_sockets_def
  by (intro reachable.connect reachable.init) (simp_all add: server_defs)

lemma room_A_eval:
  "rooms room_A = [(''r1'', [''A''])]" "connected room_A = {''A'', ''B''}"
  "adapter room_A r = (if r = ''r1'' then {''A''} else if r = ''B'' then {''B''} else if r = ''A'' then {''A''} else {})"
  by (auto simp: room_A_def two_sockets_def server_defs)

lemma room_AB_eval:
  "rooms room_AB = [(''r1'', [''A'', ''B''])]" "connected room_AB = {''A'', ''B''}"
  "adapter room_AB r = (if r = ''r1'' then {''A'', ''B''} else if r = ''B'' then {''B''} else if r = ''A'' then {''A''} else {})"
  by (auto simp: room_AB_def room_A_def two_sockets_def server_defs)

lemma reachable_room_A: "reachable room_A"
  unfolding room_A_def by (rule reachable_after [OF reachable_two_sockets]) (simp add: two_sockets_eval)

lemma reachable_room_AB: "reachable room_AB"
  unfolding room_AB_def by (rule reachable_after [OF reachable_room_A]) (simp add: room_A_eval)

text \<open>\<^verbatim>\<open>Object.keys\<close> lists array indices first, in numeric order.\<close>

lemma object_keys_order:
  "object_keys [(''b'', [''A'']), (''10'', [''A'']), (''2'', [''A'']), (''01'', [''A'']), (''a'', [''A''])]
     = [''2'', ''10'', ''b'', ''01'', ''a'']"
  by (simp add: object_keys_def is_array_index_def digits_value_def digit_value_def Let_def)

text \<open>The two-party run: \<open>A\<close> creates the room, \<open>B\<close> joins and \<open>A\<close> is told, \<open>B\<close> disconnects and
  \<open>A\<close> is told, \<open>A\<close> disconnects and the room is gone; a third socket finds the room full;
  a join before any create finds no room.\<close>

lemma scenario_two_party:
  "handle ''A'' (CreateRoom ''r1'') two_sockets = Inr (room_A, Some Ok, [])"
  "handle ''B'' (JoinRoom ''r1'') room_A = Inr (room_AB, Some Ok, [({''A''}, PeerJoined ''B'')])"
  "emitted (handle ''B'' Disconnect room_AB) = [({''A''}, PeerLeft ''B'')]"
  "rooms (after ''B'' Disconnect room_AB) = [(''r1'', [''A''])]"
  "rooms (after ''A'' Disconnect (after ''B'' Disconnect room_AB)) = []"
  "handle ''C'' (JoinRoom ''r1'') room_AB_C = Inr (room_AB_C, Some (Failed ROOM_FULL), [])"
  "handle ''B'' (JoinRoom ''r2'') two_sockets = Inr (two_sockets, Some (Failed ROOM_NOT_FOUND), [])"
  by (simp_all add: emitted_def room_AB_C_def room_AB_def room_A_def two_sockets_def server_defs)

subsection \<open>Capacity and eviction\<close>

text \<open>The last member to leave takes the room with it.\<close>

lemma leaveRoom_evicts:
  assumes "leaveRoom sid r s = Inr (s', rep, ems)" "set (members s r) \<subseteq> {sid}"
  shows "map_of (rooms s') r = None"
  using leaveRoom_effect [OF assms(1)]
proof (elim disjE conjE exE)
  assume "rooms_get (rooms s) r = Undefined" "s' = s"
  then show ?thesis by (simp add: rooms_get_Undefined)
next
  fix m
  assume m: "map_of (rooms s) r = Some m"
    and r: "rooms s' = (if set_delete m sid = []
                       then AList.delete r (AList.update r (set_delete m sid) (rooms s))
                       else AList.update r (set_delete m sid) (rooms s))"
  from assms(2) m have "set m \<subseteq> {sid}" by (simp add: members_def)
  then have "set_delete m sid = []" by (auto simp: set_delete_def filter_empty_conv removeAll_filter_not_eq)
  with r show ?thesis by (simp add: delete_conv')
qed

lemma table_ok_set:
  "table_ok rs \<Longrightarrow> (r, m) \<in> set rs \<Longrightarrow> distinct m \<and> 1 \<le> length m \<and> length m \<le> 2"
proof -
  assume ok: "table_ok rs" and mem: "(r, m) \<in> set rs"
  from ok have "distinct (map fst rs)" by (simp add: table_ok_def)
  with mem have "map_of rs r = Some m" by simp
  from table_okD [OF ok this] show ?thesis by (cases m) auto
qed

text \<open>
  C1. In every reachable state every room of the table has one or two members (a set, so
  without duplicates), and after every handler that a connected socket triggers the table
  holds no room without members: a room that a handler empties is deleted by that handler.
\<close>

theorem room_size_invariant:
  assumes "reachable s"
  shows "(\<forall>(r, m) \<in> set (rooms s). distinct m \<and> 1 \<le> length m \<and> length m \<le> 2)
       \<and> (\<forall>sid ev s' rep ems. sid \<in> connected s \<and> handle sid ev s = Inr (s', rep, ems)
             \<longrightarrow> (\<forall>(r, m) \<in> set (rooms s'). m \<noteq> [] \<and> length m \<le> 2))"
proof (intro conjI allI impI)
  from reachable_invariant [OF assms] have "table_ok (rooms s)" by simp
  then show "\<forall>(r, m) \<in> set (rooms s). distinct m \<and> 1 \<le> length m \<and> length m \<le> 2"
    by (auto dest: table_ok_set)
next
  fix sid ev s' rep ems
  assume "sid \<in> connected s \<and> handle sid ev s = Inr (s', rep, ems)"
  with assms have "reachable s'" by (auto intro: reachable.step)
  from reachable_invariant [OF this] have "table_ok (rooms s')" by simp
  then show "\<forall>(r, m) \<in> set (rooms s'). m \<noteq> [] \<and> length m \<le> 2"
    by (auto dest: table_ok_set)
qed

lemma after_disconnect_eval:
  "handle ''B'' Disconnect room_AB = Inr (after ''B'' Disconnect room_AB, None, [({''A''}, PeerLeft ''B'')])"
  "rooms (after ''B'' Disconnect room_AB) = [(''r1'', [''A''])]"
  "connected (after ''B'' Disconnect room_AB) = {''A''}"
  by (simp_all add: room_AB_def room_A_def two_sockets_def server_defs)

theorem room_size_invariant_witness:
  "reachable room_AB
   \<and> list_all (\<lambda>(r, m). distinct m \<and> 1 \<le> length m \<and> length m \<le> 2) (rooms room_AB)
   \<and> list_all (\<lambda>(r, m). m \<noteq> [] \<and> length m \<le> 2) (rooms (after ''B'' Disconnect room_AB))
   \<and> rooms (after ''B'' Disconnect room_AB) = [(''r1'', [''A''])]
   \<and> rooms (after ''A'' (LeaveRoom ''r1'') (after ''B'' Disconnect room_AB)) = []"
proof -
  note inv = room_size_invariant [OF reachable_room_AB]
  have "''B'' \<in> connected room_AB" by (simp add: room_AB_eval)
  with inv after_disconnect_eval(1)
  have "\<forall>(r, m) \<in> set (rooms (after ''B'' Disconnect room_AB)). m \<noteq> [] \<and> length m \<le> 2"
    by blast
  moreover have "rooms (after ''A'' (LeaveRoom ''r1'') (after ''B'' Disconnect room_AB)) = []"
    by (simp add: after_def [of "''A''"] leaveRoom_def rooms_get_def socket_leave_def
          set_delete_def Let_def after_disconnect_eval)
  ultimately show ?thesis
    using inv reachable_room_AB after_disconnect_eval(2) unfolding list_all_iff by blast
qed

subsection \<open>create-room\<close>

lemma rooms_get_ordinary:
  "k \<notin> set object_prototype_keys \<Longrightarrow> map_of rs k = None \<Longrightarrow> rooms_get rs k = Undefined"
  by (simp add: rooms_get_def)

text \<open>
  For a room id that is not the name of a property inherited from \<^verbatim>\<open>Object.prototype\<close>,
  \<^verbatim>\<open>create-room\<close> answers \<^verbatim>\<open>ROOM_ALREADY_EXISTS\<close> and changes nothing when the table
  has the room, and otherwise inserts the room with the caller as its only member and
  answers \<^verbatim>\<open>{ok: true}\<close>. A second \<^verbatim>\<open>create-room\<close> for the same id, from any caller,
  is answered \<^verbatim>\<open>ROOM_ALREADY_EXISTS\<close>.
\<close>

lemma create_room_ordinary:
  assumes "roomId \<notin> set object_prototype_keys"
  shows "(\<forall>m. map_of (rooms s) roomId = Some m
            \<longrightarrow> create_room sid roomId s = Inr (s, Some (Failed ROOM_ALREADY_EXISTS), []))
       \<and> (map_of (rooms s) roomId = None
            \<longrightarrow> (\<exists>s'. create_room sid roomId s = Inr (s', Some Ok, [])
                  \<and> members s' roomId = [sid]
                  \<and> (\<forall>r. r \<noteq> roomId \<longrightarrow> members s' r = members s r)))"
proof (intro conjI allI impI)
  fix m assume "map_of (rooms s) roomId = Some m"
  then show "create_room sid roomId s = Inr (s, Some (Failed ROOM_ALREADY_EXISTS), [])"
    by (simp add: create_room_def rooms_get_def)
next
  assume n: "map_of (rooms s) roomId = None"
  let ?s' = "socket_join sid roomId (s\<lparr>rooms := AList.update roomId [sid] (rooms s)\<rparr>)"
  have r: "rooms ?s' = AList.update roomId [sid] (rooms s)" by (simp add: socket_join_def)
  have "create_room sid roomId s = Inr (?s', Some Ok, [])"
    using n assms by (simp add: create_room_def rooms_get_ordinary)
  moreover have "members ?s' roomId = [sid]" using members_update [OF r, of roomId] by simp
  moreover have "\<forall>r. r \<noteq> roomId \<longrightarrow> members ?s' r = members s r"
    using members_update [OF r] by simp
  ultimately show "\<exists>s'. create_room sid roomId s = Inr (s', Some Ok, [])
                  \<and> members s' roomId = [sid]
                  \<and> (\<forall>r. r \<noteq> roomId \<longrightarrow> members s' r = members s r)"
    by blast
qed

lemma create_room_twice:
  assumes "create_room sid roomId s = Inr (s', rep, ems)"
  shows "create_room sid' roomId s' = Inr (s', Some (Failed ROOM_ALREADY_EXISTS), [])"
  using create_room_effect [OF assms]
proof (elim disjE conjE)
  assume "rooms_get (rooms s) roomId \<noteq> Undefined" "s' = s"
  then show ?thesis by (simp add: create_room_def)
next
  assume "rooms s' = AList.update roomId [sid] (rooms s)"
  then have "map_of (rooms s') roomId = Some [sid]" by (simp add: update_conv')
  then show ?thesis by (simp add: create_room_def rooms_get_def)
qed

text \<open>
  C3. \<^verbatim>\<open>create-room\<close> on an id the table does not hold must insert the room and answer
  \<^verbatim>\<open>{ok: true}\<close>. The handler tests \<^verbatim>\<open>rooms[roomId]\<close>, which is truthy for the inherited
  property \<^verbatim>\<open>constructor\<close>: with no room in the table, the request for room
  \<^verbatim>\<open>constructor\<close> is answered \<^verbatim>\<open>ROOM_ALREADY_EXISTS\<close> and no room is inserted.
\<close>

theorem create_room_inherited_key:
  "reachable two_sockets \<and> map_of (rooms two_sockets) ''constructor'' = None
   \<and> handle ''A'' (CreateRoom ''constructor'') two_sockets
       = Inr (two_sockets, Some (Failed ROOM_ALREADY_EXISTS), [])"
  using reachable_two_sockets
  by (simp add: two_sockets_eval create_room_def rooms_get_def object_prototype_keys_def)

subsection \<open>join-room\<close>

text \<open>
  For a room id that is not inherited, in a reachable state: \<^verbatim>\<open>ROOM_NOT_FOUND\<close> and no
  change when the table lacks the room, \<^verbatim>\<open>ROOM_FULL\<close> and no change when the room has two
  members, and otherwise the caller is added, the answer is \<^verbatim>\<open>{ok: true}\<close> and one
  \<^verbatim>\<open>peer-joined\<close> with the caller's id reaches every member that is not in the caller's
  own room; while that room holds the caller alone, that is every other member.
\<close>

lemma join_room_ordinary:
  assumes "reachable s" "roomId \<notin> set object_prototype_keys"
  shows "(map_of (rooms s) roomId = None
            \<longrightarrow> join_room sid roomId s = Inr (s, Some (Failed ROOM_NOT_FOUND), []))
       \<and> (\<forall>m. map_of (rooms s) roomId = Some m \<and> length m = 2
            \<longrightarrow> join_room sid roomId s = Inr (s, Some (Failed ROOM_FULL), []))
       \<and> (\<forall>m. map_of (rooms s) roomId = Some m \<and> length m \<noteq> 2
            \<longrightarrow> (\<exists>s' R. join_room sid roomId s = Inr (s', Some Ok, [(R, PeerJoined sid)])
                  \<and> set (members s' roomId) = insert sid (set m)
                  \<and> (\<forall>r. r \<noteq> roomId \<longrightarrow> members s' r = members s r)
                  \<and> set m - adapter s' sid \<subseteq> R
                  \<and> (adapter s sid \<subseteq> {sid} \<longrightarrow> set m - {sid} \<subseteq> R)))"
proof (intro conjI allI impI)
  assume "map_of (rooms s) roomId = None"
  with assms(2) show "join_room sid roomId s = Inr (s, Some (Failed ROOM_NOT_FOUND), [])"
    by (simp add: join_room_def rooms_get_ordinary)
next
  fix m assume "map_of (rooms s) roomId = Some m \<and> length m = 2"
  then show "join_room sid roomId s = Inr (s, Some (Failed ROOM_FULL), [])"
    by (simp add: join_room_def rooms_get_def)
next
  fix m assume a: "map_of (rooms s) roomId = Some m \<and> length m \<noteq> 2"
  from reachable_invariant [OF assms(1)] have ok: "table_ok (rooms s)" and ad: "adapter_ok s"
    by simp_all
  from a have m: "map_of (rooms s) roomId = Some m" and ne: "length m \<noteq> 2" by simp_all
  from table_okD [OF ok m] ne have lt: "length m < 2" by simp
  then have nge: "\<not> 2 \<le> length m" by simp
  let ?s' = "socket_join sid roomId (s\<lparr>rooms := AList.update roomId (set_add m sid) (rooms s)\<rparr>)"
  have j: "join_room sid roomId s = Inr (?s', Some Ok, [(socket_to ?s' sid roomId, PeerJoined sid)])"
    unfolding join_room_def rooms_get_def Let_def using m nge by simp
  have r: "rooms ?s' = AList.update roomId (set_add m sid) (rooms s)"
    by (simp add: socket_join_def)
  have "set m \<subseteq> adapter s roomId" using adapter_okD [OF ad, of roomId] m by (simp add: members_def)
  then have sub: "set m \<subseteq> adapter ?s' roomId" by (auto simp: socket_join_def)
  then have "set m - adapter ?s' sid \<subseteq> socket_to ?s' sid roomId"
    by (auto simp: socket_to_def)
  moreover have "adapter s sid \<subseteq> {sid} \<longrightarrow> set m - {sid} \<subseteq> socket_to ?s' sid roomId"
  proof
    assume own: "adapter s sid \<subseteq> {sid}"
    have "adapter ?s' sid \<subseteq> {sid}" using own by (auto simp: socket_join_def)
    with sub show "set m - {sid} \<subseteq> socket_to ?s' sid roomId" by (auto simp: socket_to_def)
  qed
  moreover have "set (members ?s' roomId) = insert sid (set m)"
    using members_update [OF r, of roomId] by (simp add: set_add_def insert_absorb)
  moreover have "\<forall>r. r \<noteq> roomId \<longrightarrow> members ?s' r = members s r"
    using members_update [OF r] by simp
  ultimately show "\<exists>s' R. join_room sid roomId s = Inr (s', Some Ok, [(R, PeerJoined sid)])
                  \<and> set (members s' roomId) = insert sid (set m)
                  \<and> (\<forall>r. r \<noteq> roomId \<longrightarrow> members s' r = members s r)
                  \<and> set m - adapter s' sid \<subseteq> R
                  \<and> (adapter s sid \<subseteq> {sid} \<longrightarrow> set m - {sid} \<subseteq> R)"
    using j by blast
qed

text \<open>
  C2. \<^verbatim>\<open>join-room\<close> on an id the table does not hold must answer \<^verbatim>\<open>ROOM_NOT_FOUND\<close>.
  For the inherited property \<^verbatim>\<open>constructor\<close> the handler takes \<^verbatim>\<open>rooms[roomId]\<close> for a
  room and calls \<^verbatim>\<open>room.add\<close>, which is not a function: it throws and answers nothing.
\<close>

theorem join_room_inherited_key:
  "reachable two_sockets \<and> map_of (rooms two_sockets) ''constructor'' = None
   \<and> handle ''B'' (JoinRoom ''constructor'') two_sockets = Inl TypeError"
  using reachable_two_sockets
  by (simp add: two_sockets_eval join_room_def rooms_get_def object_prototype_keys_def)

subsection \<open>signal\<close>

lemma room_named_A_eval:
  "rooms room_named_A = [(''r1'', [''A'', ''B'']), (''A'', [''B''])]"
  "connected room_named_A = {''A'', ''B''}"
  "adapter room_named_A ''r1'' = {''A'', ''B''}"
  "adapter room_named_A ''A'' = {''A'', ''B''}"
  by (auto simp: room_named_A_def after_def create_room_def rooms_get_def socket_join_def
        object_prototype_keys_def room_AB_eval)

lemma reachable_room_named_A: "reachable room_named_A"
  unfolding room_named_A_def by (rule reachable_after [OF reachable_room_AB]) (simp add: room_AB_eval)

lemma own_room_left_eval:
  "rooms own_room_left = []" "connected own_room_left = {''A'', ''B''}"
  "adapter own_room_left r = (if r = ''B'' then {''B''} else {})"
  by (auto simp: own_room_left_def after_def create_room_def leaveRoom_def rooms_get_def
        socket_join_def socket_leave_def set_delete_def object_prototype_keys_def Let_def
        two_sockets_eval)

lemma reachable_own_room_left: "reachable own_room_left"
  unfolding own_room_left_def
  by (intro reachable_after reachable_two_sockets)
     (simp_all add: after_def create_room_def rooms_get_def socket_join_def
        object_prototype_keys_def two_sockets_eval)

lemma room_AB_echo_eval:
  "rooms room_AB_echo = [(''r1'', [''A'', ''B''])]" "connected room_AB_echo = {''A'', ''B''}"
  "adapter room_AB_echo ''r1'' = {''A'', ''B''}"
  "adapter room_AB_echo ''A'' = {}"
  by (auto simp: room_AB_echo_def after_def create_room_def join_room_def rooms_get_def
        socket_join_def set_add_def object_prototype_keys_def Let_def own_room_left_eval)

lemma reachable_room_AB_echo: "reachable room_AB_echo"
  unfolding room_AB_echo_def
  by (intro reachable_after reachable_own_room_left)
     (simp_all add: after_def create_room_def rooms_get_def socket_join_def
        object_prototype_keys_def own_room_left_eval)

text \<open>
  The claim fails in three ways. A signal for a room id unknown to the table is not always
  a no-op: \<open>A\<close> and \<open>B\<close> are connected, the table is empty, and a signal of \<open>A\<close> for the
  room id \<open>B\<close> is delivered to the socket \<open>B\<close>. A member can be left out: once \<open>B\<close> has
  created a room named by the id of \<open>A\<close>, a signal of \<open>A\<close> for their room \<open>r1\<close> reaches
  nobody. The sender can be reached: once \<open>A\<close> has left the room under its own id, its
  signal for \<open>r1\<close> comes back to \<open>A\<close> as well as going to \<open>B\<close>.
\<close>

theorem signal_reaches_socket_by_id:
  "reachable two_sockets \<and> map_of (rooms two_sockets) ''B'' = None
   \<and> handle ''A'' (SignalEv ''B'' ''offer'' ''sdp'') two_sockets
       = Inr (two_sockets, None, [({''B''}, Signal ''A'' ''offer'' ''sdp'')])
   \<and> reachable room_named_A \<and> members room_named_A ''r1'' = [''A'', ''B'']
   \<and> handle ''A'' (SignalEv ''r1'' ''offer'' ''sdp'') room_named_A
       = Inr (room_named_A, None, [({}, Signal ''A'' ''offer'' ''sdp'')])
   \<and> reachable room_AB_echo \<and> members room_AB_echo ''r1'' = [''A'', ''B'']
   \<and> handle ''A'' (SignalEv ''r1'' ''offer'' ''sdp'') room_AB_echo
       = Inr (room_AB_echo, None, [({''A'', ''B''}, Signal ''A'' ''offer'' ''sdp'')])"
  using reachable_two_sockets reachable_room_named_A reachable_room_AB_echo
  by (simp add: two_sockets_eval room_named_A_eval room_AB_echo_eval members_def signal_def
        socket_to_def)

text \<open>
  C4, amended. In every reachable state a \<^verbatim>\<open>signal\<close> of sender \<open>sid\<close> for room id \<open>r\<close>
  leaves the state unchanged, answers nothing and makes one emission of
  \<^verbatim>\<open>signal {from: sid, type, payload}\<close>; the table is not consulted and the sender need not
  be a member. The emission goes to the sockets of the transport's room \<open>r\<close> that are not
  in the transport's room named \<open>sid\<close>. They are members of the table's room \<open>r\<close> or the
  connected socket whose id is \<open>r\<close>, and every member of room \<open>r\<close> outside the sender's
  own room is among them. While the sender's own room holds the sender alone, every member
  of room \<open>r\<close> but the sender is reached and the sender is not. Nobody is reached when \<open>r\<close>
  is not in the table and is not the id of another connected socket.
\<close>

theorem signal_forward:
  assumes "reachable s"
  shows "handle sid (SignalEv r t p) s
           = Inr (s, None, [(adapter s r - adapter s sid, Signal sid t p)])
       \<and> set (members s r) - adapter s sid \<subseteq> adapter s r - adapter s sid
       \<and> adapter s r - adapter s sid \<subseteq> set (members s r) \<union> ({r} \<inter> connected s)
       \<and> (adapter s sid = {sid}
            \<longrightarrow> set (members s r) - {sid} \<subseteq> adapter s r - adapter s sid
              \<and> sid \<notin> adapter s r - adapter s sid)
       \<and> (map_of (rooms s) r = None \<and> (r \<notin> connected s \<or> r = sid)
            \<longrightarrow> adapter s r - adapter s sid = {})"
proof -
  from reachable_invariant [OF assms] have ad: "adapter_ok s" by simp
  have "handle sid (SignalEv r t p) s
          = Inr (s, None, [(adapter s r - adapter s sid, Signal sid t p)])"
    by (simp add: signal_def socket_to_def)
  moreover from adapter_okD [OF ad, of r]
  have "set (members s r) - adapter s sid \<subseteq> adapter s r - adapter s sid"
    and "adapter s r - adapter s sid \<subseteq> set (members s r) \<union> ({r} \<inter> connected s)"
    by auto
  moreover from adapter_okD [OF ad, of r]
  have "adapter s sid = {sid}
          \<longrightarrow> set (members s r) - {sid} \<subseteq> adapter s r - adapter s sid
            \<and> sid \<notin> adapter s r - adapter s sid"
    by auto
  moreover from adapter_okD [OF ad, of r]
  have "map_of (rooms s) r = None \<and> (r \<notin> connected s \<or> r = sid)
          \<longrightarrow> adapter s r - adapter s sid = {}"
    by (auto simp: members_def)
  ultimately show ?thesis by blast
qed

theorem signal_forward_witness:
  "reachable room_AB
   \<and> adapter room_AB ''B'' = {''B''}
   \<and> members room_AB ''r1'' = [''A'', ''B'']
   \<and> handle ''B'' (SignalEv ''r1'' ''offer'' ''sdp'') room_AB
       = Inr (room_AB, None, [({''A''}, Signal ''B'' ''offer'' ''sdp'')])
   \<and> handle ''B'' (SignalEv ''r2'' ''offer'' ''sdp'') room_AB
       = Inr (room_AB, None, [({}, Signal ''B'' ''offer'' ''sdp'')])"
proof -
  note f = signal_forward [OF reachable_room_AB]
  have o: "adapter room_AB ''B'' = {''B''}" by (simp add: room_AB_eval)
  have a: "adapter room_AB ''r1'' - adapter room_AB ''B'' = {''A''}" by (auto simp: room_AB_eval)
  have b: "map_of (rooms room_AB) ''r2'' = None \<and> ''r2'' \<notin> connected room_AB"
    by (simp add: room_AB_eval)
  from f [of "''B''" "''r1''" "''offer''" "''sdp''"] a
  have "handle ''B'' (SignalEv ''r1'' ''offer'' ''sdp'') room_AB
       = Inr (room_AB, None, [({''A''}, Signal ''B'' ''offer'' ''sdp'')])" by simp
  moreover from f [of "''B''" "''r2''" "''offer''" "''sdp''"] b
  have "handle ''B'' (SignalEv ''r2'' ''offer'' ''sdp'') room_AB
       = Inr (room_AB, None, [({}, Signal ''B'' ''offer'' ''sdp'')])" by simp
  moreover have "members room_AB ''r1'' = [''A'', ''B'']" by (simp add: members_def room_AB_eval)
  ultimately show ?thesis using reachable_room_AB o by blast
qed

subsection \<open>leave-room\<close>

text \<open>Leaving twice leaves the table as leaving once does.\<close>

lemma leaveRoom_no_empty_room:
  assumes "leaveRoom sid r s = Inr (s1, rep1, ems1)"
  shows "map_of (rooms s1) r \<noteq> Some []"
  using leaveRoom_effect [OF assms]
proof (elim disjE conjE exE)
  assume "rooms_get (rooms s) r = Undefined" "s1 = s"
  then show ?thesis by (simp add: rooms_get_Undefined)
next
  fix m
  assume r: "rooms s1 = (if set_delete m sid = []
                       then AList.delete r (AList.update r (set_delete m sid) (rooms s))
                       else AList.update r (set_delete m sid) (rooms s))"
  show ?thesis
  proof (cases "set_delete m sid = []")
    case True
    with r have "rooms s1 = AList.delete r (AList.update r (set_delete m sid) (rooms s))" by simp
    then show ?thesis by (simp add: delete_conv')
  next
    case False
    with r have "rooms s1 = AList.update r (set_delete m sid) (rooms s)" by simp
    with False show ?thesis by (simp add: update_conv')
  qed
qed

lemma leaveRoom_table_idempotent:
  assumes "leaveRoom sid r s = Inr (s1, rep1, ems1)" "leaveRoom sid r s1 = Inr (s2, rep2, ems2)"
  shows "rooms s2 = rooms s1"
  using leaveRoom_effect [OF assms(2)]
proof (elim disjE conjE exE)
  assume "s2 = s1" then show ?thesis by simp
next
  fix m
  assume m: "map_of (rooms s1) r = Some m"
    and r: "rooms s2 = (if set_delete m sid = []
                       then AList.delete r (AList.update r (set_delete m sid) (rooms s1))
                       else AList.update r (set_delete m sid) (rooms s1))"
  have "members s1 r = set_delete (members s r) sid" using leaveRoom_members [OF assms(1), of r] by simp
  with m have e: "set_delete m sid = m" by (simp add: members_def set_delete_def)
  from leaveRoom_no_empty_room [OF assms(1)] m have "m \<noteq> []" by auto
  with r e m show ?thesis by (simp add: update_triv)
qed

lemma left_once_eval:
  "rooms (after ''B'' (LeaveRoom ''r1'') room_AB) = [(''r1'', [''A''])]"
  "adapter (after ''B'' (LeaveRoom ''r1'') room_AB) ''r1'' = {''A''}"
  "adapter (after ''B'' (LeaveRoom ''r1'') room_AB) ''B'' = {''B''}"
  by (simp_all add: after_def leaveRoom_def rooms_get_def socket_leave_def socket_to_def
        set_delete_def Let_def room_AB_eval insert_Diff_if)

lemma room_AB_C_eval:
  "rooms room_AB_C = [(''r1'', [''A'', ''B''])]"
  "adapter room_AB_C ''r1'' = {''A'', ''B''}"
  "adapter room_AB_C ''C'' = {''C''}"
  by (simp_all add: room_AB_C_def sio_connect_def room_AB_eval)

lemma reachable_room_AB_C: "reachable room_AB_C"
  unfolding room_AB_C_def
  by (rule reachable.connect [OF reachable_room_AB]) (simp add: room_AB_eval)

text \<open>
  C6. \<^verbatim>\<open>leave\<close> must be idempotent in what the remaining members are told, and a no-op
  for a socket that is not a member. With \<open>A\<close> and \<open>B\<close> in room \<open>r1\<close>: the first
  \<^verbatim>\<open>leave-room\<close> of \<open>B\<close> removes it and sends \<^verbatim>\<open>peer-left {B}\<close> to \<open>A\<close>; the second
  finds the room still in the table and sends \<^verbatim>\<open>peer-left {B}\<close> to \<open>A\<close> again. A
  \<^verbatim>\<open>leave-room\<close> of \<open>C\<close>, which never joined, sends \<^verbatim>\<open>peer-left {C}\<close> to \<open>A\<close> and \<open>B\<close>.
\<close>

theorem leave_twice_notifies_twice:
  "reachable room_AB
   \<and> members room_AB ''r1'' = [''A'', ''B'']
   \<and> emitted (handle ''B'' (LeaveRoom ''r1'') room_AB) = [({''A''}, PeerLeft ''B'')]
   \<and> members (after ''B'' (LeaveRoom ''r1'') room_AB) ''r1'' = [''A'']
   \<and> emitted (handle ''B'' (LeaveRoom ''r1'') (after ''B'' (LeaveRoom ''r1'') room_AB))
       = [({''A''}, PeerLeft ''B'')]
   \<and> reachable room_AB_C
   \<and> members room_AB_C ''r1'' = [''A'', ''B'']
   \<and> emitted (handle ''C'' (LeaveRoom ''r1'') room_AB_C) = [({''A'', ''B''}, PeerLeft ''C'')]"
  using reachable_room_AB reachable_room_AB_C
  by (simp add: emitted_def members_def leaveRoom_def rooms_get_def socket_leave_def socket_to_def
        set_delete_def Let_def room_AB_eval left_once_eval room_AB_C_eval insert_Diff_if)

section \<open>Properties of the client\<close>

subsection \<open>sendSignal\<close>

text \<open>
  C10. While the socket is absent or not connected, \<^verbatim>\<open>sendSignal\<close> throws nothing and
  changes nothing: no message is emitted, no timer is set, nothing is stored for later.
\<close>

theorem sendSignal_dropped:
  "socketRef st \<noteq> Some True \<Longrightarrow> sendSignal roomId data st = (None, st)"
  by (simp add: sendSignal_def)

theorem sendSignal_dropped_witness:
  "socketRef init_client \<noteq> Some True
   \<and> sendSignal ''r1'' (''offer'', ''sdp'') init_client = (None, init_client)
   \<and> socketRef (init_client\<lparr>socketRef := Some False\<rparr>) \<noteq> Some True
   \<and> sendSignal ''r1'' (''offer'', ''sdp'') (init_client\<lparr>socketRef := Some False\<rparr>)
       = (None, init_client\<lparr>socketRef := Some False\<rparr>)"
proof -
  have a: "socketRef init_client \<noteq> Some True" by (simp add: init_client_def)
  have b: "socketRef (init_client\<lparr>socketRef := Some False\<rparr>) \<noteq> Some True" by simp
  from sendSignal_dropped [OF a] sendSignal_dropped [OF b] a b show ?thesis by simp
qed

subsection \<open>handleIceCandidate\<close>

text \<open>
  C9. \<^verbatim>\<open>handleIceCandidate\<close> always fulfils. Without a peer connection it logs a warning;
  when adding the candidate fails it logs the failure as a warning; in both cases nothing
  else changes. \<^verbatim>\<open>handleOffer\<close> and \<^verbatim>\<open>handleAnswer\<close> reject with the error of a failed
  \<^verbatim>\<open>setRemoteDescription\<close>.
\<close>

theorem handleIceCandidate_swallows:
  "fst (handleIceCandidate env c st) = Fulfilled
   \<and> (\<not> pcRef st
        \<longrightarrow> snd (handleIceCandidate env c st) = st\<lparr>effects := effects st @ [ConsoleWarn None]\<rparr>)
   \<and> (pcRef st \<and> addIceCandidate_rejects env c = Some e
        \<longrightarrow> snd (handleIceCandidate env c st) = st\<lparr>effects := effects st @ [ConsoleWarn (Some e)]\<rparr>)
   \<and> (pcRef st \<and> addIceCandidate_rejects env c = None
        \<longrightarrow> snd (handleIceCandidate env c st) = st)
   \<and> (pcRef st \<and> setRemoteDescription_rejects env d = Some e
        \<longrightarrow> fst (handleOffer roomId env d st) = Rejected e
          \<and> fst (handleAnswer env d st) = Rejected e)"
  by (simp add: handleIceCandidate_def handleOffer_def handleAnswer_def split: option.splits)

theorem handleIceCandidate_swallows_witness:
  "handleIceCandidate refusing ''c'' in_call
     = (Fulfilled,
        in_call\<lparr>effects := effects in_call
           @ [ConsoleWarn (Some \<lparr>err_name = ''OperationError'', err_message = ''late candidate''\<rparr>)]\<rparr>)
   \<and> handleIceCandidate refusing ''c'' init_client
     = (Fulfilled, init_client\<lparr>effects := effects init_client @ [ConsoleWarn None]\<rparr>)
   \<and> fst (handleOffer ''r1'' refusing ''d'' in_call)
     = Rejected \<lparr>err_name = ''InvalidStateError'', err_message = ''wrong state''\<rparr>
   \<and> fst (handleAnswer refusing ''d'' in_call)
     = Rejected \<lparr>err_name = ''InvalidStateError'', err_message = ''wrong state''\<rparr>"
proof -
  let ?e = "\<lparr>err_name = ''OperationError'', err_message = ''late candidate''\<rparr>"
  let ?d = "\<lparr>err_name = ''InvalidStateError'', err_message = ''wrong state''\<rparr>"
  have p: "pcRef in_call" "\<not> pcRef init_client" by (simp_all add: in_call_def init_client_def)
  have r: "addIceCandidate_rejects refusing ''c'' = Some ?e"
    "setRemoteDescription_rejects refusing ''d'' = Some ?d" by (simp_all add: refusing_def)
  from handleIceCandidate_swallows [of refusing "''c''" in_call ?e "''d''" "''r1''"] p r
  have "fst (handleIceCandidate refusing ''c'' in_call) = Fulfilled"
    "snd (handleIceCandidate refusing ''c'' in_call)
       = in_call\<lparr>effects := effects in_call @ [ConsoleWarn (Some ?e)]\<rparr>" by simp_all
  then have a: "handleIceCandidate refusing ''c'' in_call
       = (Fulfilled, in_call\<lparr>effects := effects in_call @ [ConsoleWarn (Some ?e)]\<rparr>)"
    by (simp add: prod_eq_iff)
  from handleIceCandidate_swallows [of refusing "''c''" init_client ?e "''d''" "''r1''"] p
  have "fst (handleIceCandidate refusing ''c'' init_client) = Fulfilled"
    "snd (handleIceCandidate refusing ''c'' init_client)
       = init_client\<lparr>effects := effects init_client @ [ConsoleWarn None]\<rparr>" by simp_all
  then have b: "handleIceCandidate refusing ''c'' init_client
       = (Fulfilled, init_client\<lparr>effects := effects init_client @ [ConsoleWarn None]\<rparr>)"
    by (simp add: prod_eq_iff)
  from handleIceCandidate_swallows [of refusing "''c''" in_call ?d "''d''" "''r1''"] p r
  have c: "fst (handleOffer ''r1'' refusing ''d'' in_call) = Rejected ?d"
    "fst (handleAnswer refusing ''d'' in_call) = Rejected ?d" by simp_all
  from a b c show ?thesis by simp
qed

text \<open>Through \<^verbatim>\<open>handleSignal\<close> too a candidate never rejects.\<close>

lemma handleSignal_candidate:
  "fst (handleSignal roomId env (''ice-candidate'', c) st) = Fulfilled"
  by (simp add: handleSignal_def handleIceCandidate_def split: option.splits)

subsection \<open>attemptReconnection\<close>

text \<open>
  C8. With the budget used up (\<open>attempts \<ge> 5\<close>) \<^verbatim>\<open>attemptReconnection\<close> returns false and
  changes nothing. Otherwise it returns true, the counter is one higher, the timer its ref
  held is cancelled, and exactly one timer is added, which calls the reconnect callback
  after \<open>min (1000 * 2^(attempts - 1)) 16000\<close> milliseconds, \<open>attempts\<close> being the new value
  of the counter; the ref holds that timer.
\<close>

theorem attemptReconnection_backoff:
  "(peerReconnectAttempts st \<ge> MAX_RECONNECT_ATTEMPTS \<longrightarrow> attemptReconnection st = (False, st))
   \<and> (peerReconnectAttempts st < MAX_RECONNECT_ATTEMPTS \<longrightarrow>
        fst (attemptReconnection st) = True
        \<and> peerReconnectAttempts (snd (attemptReconnection st)) = peerReconnectAttempts st + 1
        \<and> reconnectTimeoutRef (snd (attemptReconnection st)) = Some (next_timer st)
        \<and> timers (snd (attemptReconnection st))
            = cancel (reconnectTimeoutRef st) (timers st)
              @ [(next_timer st,
                  min (INITIAL_RECONNECT_DELAY
                        * 2 ^ (peerReconnectAttempts (snd (attemptReconnection st)) - 1)) 16000,
                  PeerReconnect)])"
  by (simp add: attemptReconnection_def setTimeout_def clearTimeout_def cancel_def Let_def
        split: option.splits)

theorem attemptReconnection_backoff_witness:
  "peerReconnectAttempts init_client < MAX_RECONNECT_ATTEMPTS
   \<and> fst (attemptReconnection init_client) = True
   \<and> timers (snd (attemptReconnection init_client)) = [(1, 1000, PeerReconnect)]
   \<and> peerReconnectAttempts (init_client\<lparr>peerReconnectAttempts := 5\<rparr>) \<ge> MAX_RECONNECT_ATTEMPTS
   \<and> attemptReconnection (init_client\<lparr>peerReconnectAttempts := 5\<rparr>)
       = (False, init_client\<lparr>peerReconnectAttempts := 5\<rparr>)"
proof -
  have a: "peerReconnectAttempts init_client < MAX_RECONNECT_ATTEMPTS"
    by (simp add: init_client_def MAX_RECONNECT_ATTEMPTS_def)
  have b: "peerReconnectAttempts (init_client\<lparr>peerReconnectAttempts := 5\<rparr>) \<ge> MAX_RECONNECT_ATTEMPTS"
    by (simp add: MAX_RECONNECT_ATTEMPTS_def)
  from attemptReconnection_backoff [of init_client] a
  have "fst (attemptReconnection init_client) = True"
    "timers (snd (attemptReconnection init_client)) = [(1, 1000, PeerReconnect)]"
    by (simp_all add: init_client_def cancel_def INITIAL_RECONNECT_DELAY_def)
  moreover from attemptReconnection_backoff [of "init_client\<lparr>peerReconnectAttempts := 5\<rparr>"] b
  have "attemptReconnection (init_client\<lparr>peerReconnectAttempts := 5\<rparr>)
       = (False, init_client\<lparr>peerReconnectAttempts := 5\<rparr>)" by blast
  ultimately show ?thesis using a b by blast
qed

text \<open>Within the budget the ceiling of 16 seconds is reached by the last attempt and cuts
  no delay short: the delays are 1, 2, 4, 8 and 16 seconds.\<close>

lemma backoff_delays:
  "map (\<lambda>n. min (INITIAL_RECONNECT_DELAY * 2 ^ (n - 1)) 16000) [1, 2, 3, 4, 5]
     = [1000, 2000, 4000, 8000, 16000]"
  by (simp add: INITIAL_RECONNECT_DELAY_def)

subsection \<open>The join protocol\<close>

lemma rejoinRoom_retry:
  "sock env a = Some True \<Longrightarrow> ack env a = Some (Failed ROOM_NOT_FOUND) \<Longrightarrow> a < m
   \<Longrightarrow> rejoinRoom env False a m
       = [EmitJoin, SetError (Some (RoomNotFoundWaiting a m)), Delay (2000 * a)]
         @ rejoinRoom env False (a + 1) m"
  by (subst rejoinRoom.simps) simp

lemma rejoinRoom_terminal:
  "sock env a = Some True \<Longrightarrow> ack env a = Some (Failed rsn) \<Longrightarrow> rsn \<noteq> ROOM_NOT_FOUND \<or> m \<le> a
   \<Longrightarrow> rejoinRoom env False a m
       = [EmitJoin, SetError (Some (CouldNotJoin rsn)), CallOnError (CouldNotJoin rsn)]"
  by (subst rejoinRoom.simps) auto

lemma rejoinRoom_success:
  "sock env a = Some True \<Longrightarrow> ack env a = Some Ok
   \<Longrightarrow> rejoinRoom env False a m = [EmitJoin, SetError None, CallOnSuccess]"
  by (subst rejoinRoom.simps) simp

lemma rejoinRoom_creator_emits:
  "length (filter (\<lambda>x. x = EmitJoin) (rejoinRoom env True a m)) \<le> 1"
  by (subst rejoinRoom.simps) (simp split: option.splits reply.splits)

lemma rejoinRoom_emits:
  "length (filter (\<lambda>x. x = EmitJoin) (rejoinRoom env isCreator a m)) \<le> Suc (m - a)"
proof (induction env isCreator a m rule: rejoinRoom.induct)
  case (1 env isCreator a m)
  show ?case
  proof (cases isCreator)
    case True
    with rejoinRoom_creator_emits [of env a m] show ?thesis by simp
  next
    case nc: False
    show ?thesis
    proof (cases "sock env a = Some True \<and> ack env a = Some (Failed ROOM_NOT_FOUND) \<and> a < m")
      case True
      with nc have "length (filter (\<lambda>x. x = EmitJoin) (rejoinRoom env isCreator (a + 1) m))
                 \<le> Suc (m - (a + 1))"
        by (intro "1.IH") auto
      moreover from True have "a < m" by simp
      ultimately have "length (filter (\<lambda>x. x = EmitJoin) (rejoinRoom env False (a + 1) m)) \<le> m - a"
        using nc by simp
      with True nc show ?thesis by (simp add: rejoinRoom_retry)
    next
      case False
      with nc show ?thesis
        by (subst rejoinRoom.simps) (auto split: option.splits reply.splits)
    qed
  qed
qed

lemma never_created_run:
  "joinRoom never_created False =
     [Delay 100,
      EmitJoin, SetError (Some (RoomNotFoundWaiting 1 5)), Delay 2000,
      EmitJoin, SetError (Some (RoomNotFoundWaiting 2 5)), Delay 4000,
      EmitJoin, SetError (Some (RoomNotFoundWaiting 3 5)), Delay 6000,
      EmitJoin, SetError (Some (RoomNotFoundWaiting 4 5)), Delay 8000,
      EmitJoin, SetError (Some (CouldNotJoin ROOM_NOT_FOUND)),
      CallOnError (CouldNotJoin ROOM_NOT_FOUND)]"
  by (simp add: joinRoom_def never_created_def rejoinRoom_retry rejoinRoom_terminal)

text \<open>
  C7. A client that is not the creator waits 100 ms and attempts \<^verbatim>\<open>join-room\<close>. While
  the socket is connected: on \<^verbatim>\<open>ROOM_NOT_FOUND\<close> at attempt \<open>a < 5\<close> it reports that it
  is waiting and retries after \<open>2000 * a\<close> ms as attempt \<open>a + 1\<close>; any other failure, and
  \<^verbatim>\<open>ROOM_NOT_FOUND\<close> at attempt 5, ends the protocol with the error callback and no timer;
  success ends it with the success callback. A run never emits \<^verbatim>\<open>join-room\<close> more than
  five times.
\<close>

theorem join_retry_policy:
  "(sock env 0 = Some True \<longrightarrow> joinRoom env False = Delay 100 # rejoinRoom env False 1 5)
   \<and> (sock env a = Some True \<and> ack env a = Some (Failed ROOM_NOT_FOUND) \<and> a < 5
        \<longrightarrow> rejoinRoom env False a 5
            = [EmitJoin, SetError (Some (RoomNotFoundWaiting a 5)), Delay (2000 * a)]
              @ rejoinRoom env False (a + 1) 5)
   \<and> (sock env a = Some True \<and> ack env a = Some (Failed rsn) \<and> (rsn \<noteq> ROOM_NOT_FOUND \<or> 5 \<le> a)
        \<longrightarrow> rejoinRoom env False a 5
            = [EmitJoin, SetError (Some (CouldNotJoin rsn)), CallOnError (CouldNotJoin rsn)])
   \<and> (sock env a = Some True \<and> ack env a = Some Ok
        \<longrightarrow> rejoinRoom env False a 5 = [EmitJoin, SetError None, CallOnSuccess])
   \<and> length (filter (\<lambda>x. x = EmitJoin) (joinRoom env False)) \<le> 5"
proof -
  have "length (filter (\<lambda>x. x = EmitJoin) (joinRoom env False)) \<le> 5"
    using rejoinRoom_emits [of env False 1 5] by (simp add: joinRoom_def)
  then show ?thesis
    by (simp add: joinRoom_def rejoinRoom_retry rejoinRoom_terminal rejoinRoom_success)
qed

theorem join_retry_policy_witness:
  "sock never_created 1 = Some True \<and> ack never_created 1 = Some (Failed ROOM_NOT_FOUND)
   \<and> rejoinRoom never_created False 1 5
       = [EmitJoin, SetError (Some (RoomNotFoundWaiting 1 5)), Delay 2000]
         @ rejoinRoom never_created False 2 5
   \<and> rejoinRoom never_created False 5 5
       = [EmitJoin, SetError (Some (CouldNotJoin ROOM_NOT_FOUND)),
          CallOnError (CouldNotJoin ROOM_NOT_FOUND)]
   \<and> rejoinRoom room_is_full False 1 5
       = [EmitJoin, SetError (Some (CouldNotJoin ROOM_FULL)), CallOnError (CouldNotJoin ROOM_FULL)]
   \<and> rejoinRoom late_creator False 3 5 = [EmitJoin, SetError None, CallOnSuccess]
   \<and> length (filter (\<lambda>x. x = EmitJoin) (joinRoom never_created False)) = 5"
proof -
  have e: "sock never_created 1 = Some True" "ack never_created 1 = Some (Failed ROOM_NOT_FOUND)"
    "sock never_created 5 = Some True" "ack never_created 5 = Some (Failed ROOM_NOT_FOUND)"
    "sock room_is_full 1 = Some True" "ack room_is_full 1 = Some (Failed ROOM_FULL)"
    "sock late_creator 3 = Some True" "ack late_creator 3 = Some Ok"
    by (simp_all add: never_created_def room_is_full_def late_creator_def)
  from join_retry_policy [of never_created 1 ROOM_NOT_FOUND] e
  have a: "rejoinRoom never_created False 1 5
       = [EmitJoin, SetError (Some (RoomNotFoundWaiting 1 5)), Delay 2000]
         @ rejoinRoom never_created False 2 5" by (simp add: numeral_2_eq_2)
  from join_retry_policy [of never_created 5 ROOM_NOT_FOUND] e
  have b: "rejoinRoom never_created False 5 5
       = [EmitJoin, SetError (Some (CouldNotJoin ROOM_NOT_FOUND)),
          CallOnError (CouldNotJoin ROOM_NOT_FOUND)]" by simp
  from join_retry_policy [of room_is_full 1 ROOM_FULL] e
  have c: "rejoinRoom room_is_full False 1 5
       = [EmitJoin, SetError (Some (CouldNotJoin ROOM_FULL)), CallOnError (CouldNotJoin ROOM_FULL)]"
    by simp
  from join_retry_policy [of late_creator 3 ROOM_FULL] e
  have d: "rejoinRoom late_creator False 3 5 = [EmitJoin, SetError None, CallOnSuccess]" by simp
  have "length (filter (\<lambda>x. x = EmitJoin) (joinRoom never_created False)) = 5"
    by (simp add: never_created_run)
  with a b c d e show ?thesis by simp
qed

subsection \<open>endCall\<close>

lemma is_set_simps: "is_set None = False" "is_set (Some t) = (t \<noteq> 0)"
  by (simp_all add: is_set_def)

lemma stopStream_facts:
  "effects (stopStream st) = effects st @ (if localStream st then [StopTracks] else [])"
  "localStream (stopStream st) = False"
  "pcRef (stopStream st) = pcRef st"
  "socketRef (stopStream st) = socketRef st"
  "reconnectTimeoutRef (stopStream st) = reconnectTimeoutRef st"
  "connectionTimeoutRef (stopStream st) = connectionTimeoutRef st"
  "reconnectIntervalRef (stopStream st) = reconnectIntervalRef st"
  "timers (stopStream st) = timers st"
  "next_timer (stopStream st) = next_timer st"
  by (simp_all add: stopStream_def Let_def split: option.splits)

lemma close_facts:
  "effects (close st)
     = effects st @ cleared PeerReconnect (reconnectTimeoutRef st)
       @ (if pcRef st then [ClosePeerConnection] else [])"
  "pcRef (close st) = False"
  "\<not> is_set (reconnectTimeoutRef (close st))"
  "peerReconnectAttempts (close st) = 0"
  "localStream (close st) = localStream st"
  "socketRef (close st) = socketRef st"
  "connectionTimeoutRef (close st) = connectionTimeoutRef st"
  "reconnectIntervalRef (close st) = reconnectIntervalRef st"
  "timers (close st) = cancel (reconnectTimeoutRef st) (timers st)"
  "next_timer (close st) = next_timer st"
  by (simp_all add: close_def clearTimeout_def cleared_def cancel_def is_set_simps Let_def split: option.splits)

lemma stopMonitoringReconnection_facts:
  "effects (stopMonitoringReconnection st)
     = effects st @ cleared ReconnectMonitor (reconnectIntervalRef st)"
  "\<not> is_set (reconnectIntervalRef (stopMonitoringReconnection st))"
  "socketRef (stopMonitoringReconnection st) = socketRef st"
  "connectionTimeoutRef (stopMonitoringReconnection st) = connectionTimeoutRef st"
  "localStream (stopMonitoringReconnection st) = localStream st"
  "pcRef (stopMonitoringReconnection st) = pcRef st"
  "reconnectTimeoutRef (stopMonitoringReconnection st) = reconnectTimeoutRef st"
  "timers (stopMonitoringReconnection st) = cancel (reconnectIntervalRef st) (timers st)"
  "next_timer (stopMonitoringReconnection st) = next_timer st"
  by (simp_all add: stopMonitoringReconnection_def clearTimeout_def cleared_def cancel_def is_set_simps
        split: option.splits)

lemma disconnectSocket_facts:
  "effects (disconnectSocket st)
     = effects st @ cleared ConnectionTimeout (connectionTimeoutRef st)
       @ cleared ReconnectMonitor (reconnectIntervalRef st)
       @ (if socketRef st = None then [] else [RemoveAllListeners, SocketDisconnect])"
  "socketRef (disconnectSocket st) = None"
  "\<not> is_set (connectionTimeoutRef (disconnectSocket st))"
  "\<not> is_set (reconnectIntervalRef (disconnectSocket st))"
  "socketReconnectAttempts (disconnectSocket st) = 0"
  "localStream (disconnectSocket st) = localStream st"
  "pcRef (disconnectSocket st) = pcRef st"
  "reconnectTimeoutRef (disconnectSocket st) = reconnectTimeoutRef st"
  "timers (disconnectSocket st)
     = cancel (reconnectIntervalRef st) (cancel (connectionTimeoutRef st) (timers st))"
  "next_timer (disconnectSocket st) = next_timer st"
  by (simp_all add: disconnectSocket_def stopMonitoringReconnection_facts clearTimeout_def
        cleared_def cancel_def is_set_simps Let_def split: option.splits)

lemma start_media_failure:
  "start False (Some e) cs st
     = st\<lparr>mediaError := Some (formatErrorMessage e),
          error := Some (finalError (mediaError st) (socketError st) e),
          status := Disconnected\<rparr>"
  by (simp add: start_def start_begin_def start_resume_def getUserMedia_def)

text \<open>\<^verbatim>\<open>peer-left\<close> sets the status to \<^verbatim>\<open>disconnected\<close> as well and schedules nothing.\<close>

lemma handlePeerLeft_status:
  "status (handlePeerLeft st) = Disconnected" "timers (handlePeerLeft st) = timers st"
  by (simp_all add: handlePeerLeft_def Let_def split: option.splits)

lemma endCall_facts:
  "effects (endCall st)
     = effects st
       @ (if localStream st then [StopTracks] else [])
       @ (cleared PeerReconnect (reconnectTimeoutRef st)
          @ (if pcRef st then [ClosePeerConnection] else []))
       @ (cleared ConnectionTimeout (connectionTimeoutRef st)
          @ cleared ReconnectMonitor (reconnectIntervalRef st)
          @ (if socketRef st = None then [] else [RemoveAllListeners, SocketDisconnect]))"
  "timers (endCall st)
     = cancel (reconnectIntervalRef st)
         (cancel (connectionTimeoutRef st) (cancel (reconnectTimeoutRef st) (timers st)))"
  "status (endCall st) = Disconnected"
  "localStream (endCall st) = False" "pcRef (endCall st) = False" "socketRef (endCall st) = None"
  "is_set (reconnectTimeoutRef (endCall st)) = False"
  "is_set (connectionTimeoutRef (endCall st)) = False"
  "is_set (reconnectIntervalRef (endCall st)) = False"
  "next_timer (endCall st) = next_timer st"
  by (simp_all add: endCall_def disconnectSocket_facts close_facts stopStream_facts)

lemma cancel_subset: "set (cancel r ts) \<subseteq> set ts"
  by (auto simp: cancel_def split: option.splits)

lemma cancel_removes: "r = Some t \<Longrightarrow> t \<noteq> 0 \<Longrightarrow> t \<notin> fst ` set (cancel r ts)"
  by (auto simp: cancel_def)

lemma cancel_keeps_out: "t \<notin> fst ` set ts \<Longrightarrow> t \<notin> fst ` set (cancel r ts)"
  using cancel_subset [of r ts] by auto

lemma handleRetry_in_call:
  "timers (handleRetry in_call) = [(1, 500, Restart)]"
  "next_timer (handleRetry in_call) = 2"
  "localStream (handleRetry in_call) = False" "pcRef (handleRetry in_call) = False"
  "socketRef (handleRetry in_call) = None"
  "reconnectTimeoutRef (handleRetry in_call) = None"
  "connectionTimeoutRef (handleRetry in_call) = None"
  "reconnectIntervalRef (handleRetry in_call) = None"
  "localVideo (handleRetry in_call) = Some False"
  by (simp_all add: handleRetry_def setTimeout_def endCall_def disconnectSocket_def
        stopMonitoringReconnection_def close_def stopStream_def in_call_def init_client_def Let_def)

lemma ended_after_retry_eval:
  "status ended_after_retry = Disconnected"
  "timers ended_after_retry = [(1, 500, Restart)]"
  "next_timer ended_after_retry = 2"
  by (simp_all add: ended_after_retry_def endCall_facts handleRetry_in_call cancel_def)

lemma restarted_eval:
  "status restarted = Waiting" "localStream restarted = True" "socketRef restarted = Some True"
  "timers restarted = [(3, 100, JoinStart)]"
  by (simp_all add: restarted_def ended_after_retry_def start_def start_begin_def start_resume_def
        getUserMedia_def connectSocket_connected_def on_connect_def connectSocket_begin_def
        handleSocketConnect_def stopMonitoringReconnection_def clearTimeout_def setTimeout_def
        expire_def endCall_def disconnectSocket_def close_def stopStream_def handleRetry_def
        in_call_def init_client_def Let_def)

lemma resumed_after_end_eval:
  "localStream resumed_after_end = True" "socketRef resumed_after_end = Some True"
  "timers resumed_after_end = [(2, 100, JoinStart)]"
  by (simp_all add: resumed_after_end_def start_begin_def start_resume_def
        getUserMedia_def connectSocket_connected_def on_connect_def connectSocket_begin_def
        handleSocketConnect_def stopMonitoringReconnection_def clearTimeout_def setTimeout_def
        endCall_def disconnectSocket_def close_def stopStream_def init_client_def Let_def)

text \<open>
  The claim fails in three ways. The order: from a call, \<^verbatim>\<open>endCall\<close> stops the media
  tracks first, then closes the peer connection, then disconnects the socket. The only
  path: \<^verbatim>\<open>start\<close> on a fresh page, with camera and microphone refused, sets the status to
  \<^verbatim>\<open>disconnected\<close> too and schedules nothing. No further retry: \<^verbatim>\<open>endCall\<close> cancels only
  the timers that its three refs hold. Called while the timer of \<^verbatim>\<open>handleRetry\<close> is
  pending, it leaves that timer, which then runs \<^verbatim>\<open>start()\<close>: the status is \<^verbatim>\<open>waiting\<close>,
  the media are acquired, the socket is connected and a join is scheduled. Called while a
  \<^verbatim>\<open>start()\<close> awaits the browser, it does not stop that \<^verbatim>\<open>start()\<close>, which acquires the
  media and connects.
\<close>

theorem endCall_media_first:
  "effects (endCall in_call) = [StopTracks, ClosePeerConnection, RemoveAllListeners, SocketDisconnect]
   \<and> status (start False (Some denied) connectSocket_connected init_client) = Disconnected
   \<and> timers (start False (Some denied) connectSocket_connected init_client) = []
   \<and> status ended_after_retry = Disconnected
   \<and> timers ended_after_retry = [(1, 500, Restart)]
   \<and> status restarted = Waiting \<and> localStream restarted = True
   \<and> socketRef restarted = Some True \<and> timers restarted = [(3, 100, JoinStart)]
   \<and> localStream resumed_after_end = True \<and> socketRef resumed_after_end = Some True
   \<and> timers resumed_after_end = [(2, 100, JoinStart)]"
  by (simp add: endCall_facts cleared_def start_media_failure ended_after_retry_eval
        restarted_eval resumed_after_end_eval in_call_def init_client_def)

text \<open>
  C5, amended. \<^verbatim>\<open>endCall\<close> tears down, whatever the state, the media, then the peer
  session, then the channel, in that order. It sets no timer, cancels the timers held by
  its three refs and sets the status to \<^verbatim>\<open>disconnected\<close> (never \<^verbatim>\<open>idle\<close>), leaving no
  stream, no peer connection, no socket and no timer in a ref. It is not the only path to
  that status: a \<^verbatim>\<open>start\<close> whose media request fails sets it too and schedules nothing.
\<close>

theorem endCall_teardown:
  "effects (endCall st)
     = effects st
       @ (if localStream st then [StopTracks] else [])
       @ (cleared PeerReconnect (reconnectTimeoutRef st)
          @ (if pcRef st then [ClosePeerConnection] else []))
       @ (cleared ConnectionTimeout (connectionTimeoutRef st)
          @ cleared ReconnectMonitor (reconnectIntervalRef st)
          @ (if socketRef st = None then [] else [RemoveAllListeners, SocketDisconnect]))
   \<and> set (timers (endCall st)) \<subseteq> set (timers st)
   \<and> (\<forall>t. t \<noteq> 0 \<and> (reconnectTimeoutRef st = Some t \<or> connectionTimeoutRef st = Some t
                     \<or> reconnectIntervalRef st = Some t)
          \<longrightarrow> t \<notin> fst ` set (timers (endCall st)))
   \<and> status (endCall st) = Disconnected
   \<and> \<not> localStream (endCall st) \<and> \<not> pcRef (endCall st) \<and> socketRef (endCall st) = None
   \<and> \<not> is_set (reconnectTimeoutRef (endCall st))
   \<and> \<not> is_set (connectionTimeoutRef (endCall st))
   \<and> \<not> is_set (reconnectIntervalRef (endCall st))
   \<and> status (start False (Some e) cs st') = Disconnected
   \<and> timers (start False (Some e) cs st') = timers st'"
proof -
  let ?ts = "timers (endCall st)"
  have sub: "set ?ts \<subseteq> set (timers st)"
    unfolding endCall_facts(2)
    using cancel_subset [of "reconnectIntervalRef st"] cancel_subset [of "connectionTimeoutRef st"]
      cancel_subset [of "reconnectTimeoutRef st" "timers st"]
    by blast
  have gone: "t \<notin> fst ` set ?ts"
    if h: "t \<noteq> 0 \<and> (reconnectTimeoutRef st = Some t \<or> connectionTimeoutRef st = Some t
                     \<or> reconnectIntervalRef st = Some t)" for t
  proof -
    from h have nz: "t \<noteq> 0" by simp
    from h consider (a) "reconnectTimeoutRef st = Some t" | (b) "connectionTimeoutRef st = Some t"
      | (c) "reconnectIntervalRef st = Some t" by blast
    then show ?thesis
      unfolding endCall_facts(2)
    proof cases
      case a
      from cancel_removes [OF a nz]
      have "t \<notin> fst ` set (cancel (reconnectTimeoutRef st) (timers st))" .
      then show "t \<notin> fst ` set (cancel (reconnectIntervalRef st)
                  (cancel (connectionTimeoutRef st) (cancel (reconnectTimeoutRef st) (timers st))))"
        by (rule cancel_keeps_out [OF cancel_keeps_out])
    next
      case b
      from cancel_removes [OF b nz]
      have "t \<notin> fst ` set (cancel (connectionTimeoutRef st)
                              (cancel (reconnectTimeoutRef st) (timers st)))" .
      then show "t \<notin> fst ` set (cancel (reconnectIntervalRef st)
                  (cancel (connectionTimeoutRef st) (cancel (reconnectTimeoutRef st) (timers st))))"
        by (rule cancel_keeps_out)
    next
      case c
      from cancel_removes [OF c nz]
      show "t \<notin> fst ` set (cancel (reconnectIntervalRef st)
                  (cancel (connectionTimeoutRef st) (cancel (reconnectTimeoutRef st) (timers st))))" .
    qed
  qed
  from sub gone show ?thesis
    by (simp add: endCall_facts start_media_failure)
qed

theorem endCall_teardown_witness:
  "effects (endCall (in_call\<lparr>reconnectTimeoutRef := Some 3, timers := [(3, 2000, PeerReconnect)]\<rparr>))
     = [StopTracks, ClearTimer PeerReconnect 3, ClosePeerConnection, RemoveAllListeners,
        SocketDisconnect]
   \<and> 3 \<notin> fst ` set (timers (endCall (in_call\<lparr>reconnectTimeoutRef := Some 3,
                                            timers := [(3, 2000, PeerReconnect)]\<rparr>)))
   \<and> status (endCall (in_call\<lparr>reconnectTimeoutRef := Some 3, timers := [(3, 2000, PeerReconnect)]\<rparr>))
     = Disconnected
   \<and> effects (endCall init_client) = []
   \<and> status (start False (Some denied) connectSocket_connected init_client) = Disconnected"
proof -
  let ?st = "in_call\<lparr>reconnectTimeoutRef := Some 3, timers := [(3, 2000, PeerReconnect)]\<rparr>"
  note t = endCall_teardown [of ?st denied connectSocket_connected init_client]
  have r: "(3::nat) \<noteq> 0 \<and> (reconnectTimeoutRef ?st = Some 3 \<or> connectionTimeoutRef ?st = Some 3
              \<or> reconnectIntervalRef ?st = Some 3)" by simp
  from t r have a: "3 \<notin> fst ` set (timers (endCall ?st))" by blast
  from t have b: "effects (endCall ?st)
     = [StopTracks, ClearTimer PeerReconnect 3, ClosePeerConnection, RemoveAllListeners,
        SocketDisconnect]"
    by (simp add: in_call_def init_client_def cleared_def)
  from t have c: "status (endCall ?st) = Disconnected"
    "status (start False (Some denied) connectSocket_connected init_client) = Disconnected"
    by simp_all
  from endCall_teardown [of init_client denied connectSocket_connected init_client]
  have d: "effects (endCall init_client) = []"
    by (simp add: init_client_def cleared_def)
  from a b c d show ?thesis by simp
qed

end
